theory Spec2Isabelle
  imports Complex_Main
begin

section \<open>JavaScript values used by the services\<close>

text \<open>
  A JavaScript \<open>number\<close> as the services compare it: a finite value (taken as a real; the
  code only compares amounts with constants), the two infinities and NaN. A JSON body can
  carry \<open>Infinity\<close> (the literal \<open>1e999\<close> is parsed to it); it cannot carry NaN.
\<close>

datatype jsnum = Fin real | PosInf | NegInf | NaN

text \<open>\<open>!x\<close> on a number: \<open>0\<close> and \<open>NaN\<close> are falsy.\<close>

fun num_falsy :: "jsnum \<Rightarrow> bool" where
  "num_falsy (Fin r) = (r = 0)"
| "num_falsy NaN = True"
| "num_falsy PosInf = False"
| "num_falsy NegInf = False"

text \<open>\<open>x <= c\<close>, \<open>x >= c\<close>, \<open>x > c\<close> and \<open>x < c\<close> against a finite constant; every comparison with NaN is false.\<close>

fun num_le :: "jsnum \<Rightarrow> real \<Rightarrow> bool" where
  "num_le (Fin r) c = (r \<le> c)"
| "num_le NegInf c = True"
| "num_le PosInf c = False"
| "num_le NaN c = False"

fun num_ge :: "jsnum \<Rightarrow> real \<Rightarrow> bool" where
  "num_ge (Fin r) c = (c \<le> r)"
| "num_ge PosInf c = True"
| "num_ge NegInf c = False"
| "num_ge NaN c = False"

fun num_gt :: "jsnum \<Rightarrow> real \<Rightarrow> bool" where
  "num_gt (Fin r) c = (c < r)"
| "num_gt PosInf c = True"
| "num_gt NegInf c = False"
| "num_gt NaN c = False"

fun num_lt :: "jsnum \<Rightarrow> real \<Rightarrow> bool" where
  "num_lt (Fin r) c = (r < c)"
| "num_lt NegInf c = True"
| "num_lt PosInf c = False"
| "num_lt NaN c = False"

text \<open>
  A string is a list of code units below 256 (a \<open>char\<close> is the code point of that number,
  so \<open>length\<close> counts what JavaScript's \<open>length\<close> counts); strings with higher code units
  are outside the model. \<open>String.prototype.trim\<close> strips white space and line terminators:
  among these code units the tab, line feed, vertical tab, form feed, carriage return, space
  and the no-break space U+00A0.
\<close>

definition isSpace :: "char \<Rightarrow> bool" where
  "isSpace c = (c \<in> set [CHR 0x09, CHR 0x0A, CHR 0x0B, CHR 0x0C, CHR 0x0D, CHR '' '', CHR 0xA0])"

definition trim :: "string \<Rightarrow> string" where
  "trim s = rev (dropWhile isSpace (rev (dropWhile isSpace s)))"

text \<open>\<open>a || b\<close> on an optional string: the empty string is falsy.\<close>

fun str_or :: "string option \<Rightarrow> string \<Rightarrow> string" where
  "str_or None d = d"
| "str_or (Some s) d = (if s = [] then d else s)"

text \<open>\<open>Array.prototype.join\<close>.\<close>

fun join :: "string \<Rightarrow> string list \<Rightarrow> string" where
  "join sep [] = []"
| "join sep [x] = x"
| "join sep (x # y # ys) = x @ sep @ join sep (y # ys)"

text \<open>Decimal rendering of a non-negative integer, as a template literal prints \<open>Date.now()\<close>.\<close>

fun showNat :: "nat \<Rightarrow> string" where
  "showNat n = (if n < 10 then [char_of (48 + n)] else showNat (n div 10) @ [char_of (48 + n mod 10)])"

declare showNat.simps [simp del]

section \<open>Responses\<close>

text \<open>\<open>ApiResponse\<close> (the JSON body every controller sends) and \<open>createApiResponse\<close>.\<close>

record 'd ApiResponse =
  api_success :: bool
  api_data :: "'d option"
  api_message :: "string option"
  api_error :: "string option"

definition createApiResponse :: "bool \<Rightarrow> 'd option \<Rightarrow> string option \<Rightarrow> string option \<Rightarrow> 'd ApiResponse" where
  "createApiResponse success data message error =
     \<lparr>api_success = success, api_data = data, api_message = message, api_error = error\<rparr>"

text \<open>What a controller sends: \<open>res.status(s).json(body)\<close>.\<close>

record 'd HttpResponse =
  http_status :: nat
  http_body :: "'d ApiResponse"

definition respond :: "nat \<Rightarrow> 'd ApiResponse \<Rightarrow> 'd HttpResponse" where
  "respond s b = \<lparr>http_status = s, http_body = b\<rparr>"

text \<open>\<open>ServiceResponse\<close> (what the order service's clients return) and \<open>createServiceResponse\<close>.\<close>

record 'd ServiceResponse =
  sr_success :: bool
  sr_data :: "'d option"
  sr_error :: "string option"
  sr_statusCode :: "nat option"

definition createServiceResponse :: "bool \<Rightarrow> 'd option \<Rightarrow> string option \<Rightarrow> nat option \<Rightarrow> 'd ServiceResponse" where
  "createServiceResponse success data error statusCode =
     \<lparr>sr_success = success, sr_data = data, sr_error = error, sr_statusCode = statusCode\<rparr>"

text \<open>\<open>r.statusCode || 400\<close>: an absent or zero status code falls back to the default.\<close>

definition statusCodeOr :: "'d ServiceResponse \<Rightarrow> nat \<Rightarrow> nat" where
  "statusCodeOr r d = (case sr_statusCode r of None \<Rightarrow> d | Some n \<Rightarrow> if n = 0 then d else n)"

text \<open>
  The body of a reply as axios hands it over (\<open>response.data\<close>): a JSON object, read as
  an \<open>ApiResponse\<close>; JSON \<open>null\<close>, of which reading a field throws a \<open>TypeError\<close>; or
  another value (a string, a number), of which every field read is undefined.
\<close>

datatype 'd body = JsonObject "'d ApiResponse" | JsonNull | JsonOther

text \<open>
  The outcome of an axios call. \<open>Replied s b\<close>: the server answered with HTTP status \<open>s\<close>
  and body \<open>b\<close>; axios resolves when \<open>200 \<le> s < 300\<close> and rejects with
  \<open>error.response\<close> otherwise. \<open>ConnRefused\<close>: rejected with code \<open>ECONNREFUSED\<close>.
  \<open>NoResponse\<close>: any other rejection without a response (a timeout, for instance).
\<close>

datatype 'd axios = Replied nat "'d body" | ConnRefused | NoResponse

definition resolves :: "nat \<Rightarrow> bool" where
  "resolves s = (200 \<le> s \<and> s < 300)"

definition isNull :: "'d body \<Rightarrow> bool" where
  "isNull b = (case b of JsonNull \<Rightarrow> True | _ \<Rightarrow> False)"

text \<open>
  \<open>data.success\<close>, \<open>data.data\<close> and \<open>data?.message\<close> where the read does not throw.
\<close>

definition body_success :: "'d body \<Rightarrow> bool" where
  "body_success b = (case b of JsonObject x \<Rightarrow> api_success x | _ \<Rightarrow> False)"

definition body_data :: "'d body \<Rightarrow> 'd option" where
  "body_data b = (case b of JsonObject x \<Rightarrow> api_data x | _ \<Rightarrow> None)"

definition body_message :: "'d body \<Rightarrow> string option" where
  "body_message b = (case b of JsonObject x \<Rightarrow> api_message x | _ \<Rightarrow> None)"

section \<open>Order service: data model\<close>

datatype OrderStatus = PENDING | CONFIRMED | PROCESSING | SHIPPED | DELIVERED | CANCELLED

record ShippingAddress =
  street :: "string option"
  city :: "string option"
  state :: "string option"
  zipCode :: "string option"
  country :: "string option"

text \<open>
  The body of \<open>POST /api/orders\<close>. The route mounts no schema validation, so the body is
  whatever JSON the client sent: a key is absent (\<open>None\<close>, also for \<open>null\<close>) or present.
  \<open>req_orderId\<close> is the body's \<open>orderId\<close> key, which \<open>CreateOrderRequest\<close> does not
  declare but \<open>{...orderData}\<close> copies into the model. Identifiers of another JSON type
  than string are outside this model.  Field names are prefixed because several records
  of the services share them.
\<close>

record CreateOrderRequest =
  req_customerId :: "string option"
  req_productId :: "string option"
  req_amount :: "jsnum option"
  req_shippingAddress :: "ShippingAddress option"
  req_orderId :: "string option"

text \<open>The persisted order document (\<open>orderSchema\<close>, with \<open>timestamps: true\<close>).\<close>

record Order =
  ord_orderId :: string
  ord_customerId :: string
  ord_productId :: string
  ord_amount :: jsnum
  ord_orderStatus :: OrderStatus
  ord_shippingAddress :: "ShippingAddress option"
  ord_createdAt :: nat
  ord_updatedAt :: nat

record OrderResponse =
  or_customerId :: string
  or_orderId :: string
  or_productId :: string
  or_orderStatus :: OrderStatus
  or_amount :: jsnum
  or_paymentStatus :: "string option"
  or_orderDate :: nat
  or_createdAt :: nat
  or_updatedAt :: nat

record Customer =
  cust_customerId :: string
  cust_isActive :: bool

record Product =
  prod_productId :: string
  prod_stock :: int
  prod_isActive :: bool

record PaymentRequest =
  preq_customerId :: string
  preq_orderId :: string
  preq_productId :: string
  preq_amount :: jsnum
  preq_paymentMethod :: "string option"

record PaymentResponse =
  presp_success :: bool
  presp_paymentId :: "string option"
  presp_transactionId :: "string option"
  presp_message :: "string option"

section \<open>Order service: utilities and clients\<close>

text \<open>
  \<open>validateRequiredFields(orderData, ['customerId', 'productId', 'amount'])\<close>: a field is
  reported when it is falsy, or a string that trims to the empty string.
\<close>

definition missingString :: "string option \<Rightarrow> bool" where
  "missingString v = (case v of None \<Rightarrow> True | Some s \<Rightarrow> s = [] \<or> trim s = [])"

definition missingNumber :: "jsnum option \<Rightarrow> bool" where
  "missingNumber v = (case v of None \<Rightarrow> True | Some n \<Rightarrow> num_falsy n)"

definition requiredError :: "string \<Rightarrow> string \<times> string" where
  "requiredError field = (field, field @ '' is required'')"

definition validateRequiredFields :: "CreateOrderRequest \<Rightarrow> (string \<times> string) list" where
  "validateRequiredFields data =
     (if missingString (req_customerId data) then [requiredError ''customerId''] else []) @
     (if missingString (req_productId data) then [requiredError ''productId''] else []) @
     (if missingNumber (req_amount data) then [requiredError ''amount''] else [])"

definition isValid :: "(string \<times> string) list \<Rightarrow> bool" where
  "isValid errors = (length errors = 0)"

text \<open>
  \<open>validateCustomer\<close> (customerService.ts); \<open>get\<close> is the axios GET of the customer.
  A resolved reply with a \<open>null\<close> body throws inside the \<open>try\<close> and is caught as an
  error without a response and without a code.
\<close>

definition validateCustomer :: "(string \<Rightarrow> Customer axios) \<Rightarrow> string \<Rightarrow> Customer ServiceResponse" where
  "validateCustomer get customerId =
     (case get customerId of
        Replied s b \<Rightarrow>
          if resolves s then
            (if isNull b then createServiceResponse False None (Some ''Internal server error'') (Some 500)
             else if body_success b \<and> body_data b \<noteq> None
             then createServiceResponse True (body_data b) None (Some 200)
             else createServiceResponse False None (Some ''Customer not found or inactive'') (Some 404))
          else createServiceResponse False None (Some (str_or (body_message b) ''Customer service error'')) (Some s)
      | ConnRefused \<Rightarrow> createServiceResponse False None (Some ''Customer service unavailable'') (Some 503)
      | NoResponse \<Rightarrow> createServiceResponse False None (Some ''Internal server error'') (Some 500))"

text \<open>\<open>validateProduct\<close> (productService.ts).\<close>

definition validateProduct :: "(string \<Rightarrow> Product axios) \<Rightarrow> string \<Rightarrow> nat \<Rightarrow> Product ServiceResponse" where
  "validateProduct get productId quantity =
     (case get productId of
        Replied s b \<Rightarrow>
          if resolves s then
            (if isNull b then createServiceResponse False None (Some ''Internal server error'') (Some 500)
             else case (if body_success b then body_data b else None) of
               Some product \<Rightarrow>
                 if prod_isActive product \<and> int quantity \<le> prod_stock product
                 then createServiceResponse True (Some product) None (Some 200)
                 else createServiceResponse False None (Some ''Product not available or insufficient stock'') (Some 400)
             | None \<Rightarrow> createServiceResponse False None (Some ''Product not found'') (Some 404))
          else createServiceResponse False None (Some (str_or (body_message b) ''Product service error'')) (Some s)
      | ConnRefused \<Rightarrow> createServiceResponse False None (Some ''Product service unavailable'') (Some 503)
      | NoResponse \<Rightarrow> createServiceResponse False None (Some ''Internal server error'') (Some 500))"

text \<open>
  \<open>updateProductStock\<close> (productService.ts): every error without a response is
  reported as 503 here.
\<close>

definition updateProductStock :: "(string \<Rightarrow> nat \<Rightarrow> unit axios) \<Rightarrow> string \<Rightarrow> nat \<Rightarrow> bool ServiceResponse" where
  "updateProductStock patch productId quantity =
     (case patch productId quantity of
        Replied s b \<Rightarrow>
          if resolves s then
            (if isNull b then createServiceResponse False (Some False) (Some ''Product service unavailable'') (Some 503)
             else if body_success b
             then createServiceResponse True (Some True) None (Some 200)
             else createServiceResponse False (Some False) (Some (str_or (body_message b) ''Failed to update product stock'')) (Some 400))
          else createServiceResponse False (Some False) (Some (str_or (body_message b) ''Product service error'')) (Some s)
      | ConnRefused \<Rightarrow> createServiceResponse False (Some False) (Some ''Product service unavailable'') (Some 503)
      | NoResponse \<Rightarrow> createServiceResponse False (Some False) (Some ''Product service unavailable'') (Some 503))"

text \<open>
  \<open>processPayment\<close> of the order service (paymentService.ts), the client of the payment
  service; it is \<open>paymentClient\<close> here because the payment service's controller bears
  the same name. \<open>post\<close> is the axios POST; it runs against the payment side's state
  \<open>'p\<close>, which the call may change.
\<close>

definition clientPaymentData :: "string \<Rightarrow> string \<Rightarrow> string \<Rightarrow> jsnum \<Rightarrow> PaymentRequest" where
  "clientPaymentData customerId orderId productId amount =
     \<lparr>preq_customerId = customerId, preq_orderId = orderId, preq_productId = productId,
      preq_amount = amount, preq_paymentMethod = Some ''bank_transfer''\<rparr>"

definition paymentClient ::
  "(PaymentRequest \<Rightarrow> 'p \<Rightarrow> PaymentResponse axios \<times> 'p) \<Rightarrow> string \<Rightarrow> string \<Rightarrow> string \<Rightarrow> jsnum \<Rightarrow> 'p
     \<Rightarrow> PaymentResponse ServiceResponse \<times> 'p" where
  "paymentClient post customerId orderId productId amount ps =
     (let (reply, ps') = post (clientPaymentData customerId orderId productId amount) ps
      in (case reply of
            Replied s b \<Rightarrow>
              if resolves s then
                (if isNull b then createServiceResponse False None (Some ''Internal server error'') (Some 500)
                 else if body_success b \<and> body_data b \<noteq> None
                 then createServiceResponse True (body_data b) None (Some 200)
                 else createServiceResponse False None (Some (str_or (body_message b) ''Payment processing failed'')) (Some 400))
              else createServiceResponse False None (Some (str_or (body_message b) ''Payment service error'')) (Some s)
          | ConnRefused \<Rightarrow> createServiceResponse False None (Some ''Payment service unavailable'') (Some 503)
          | NoResponse \<Rightarrow> createServiceResponse False None (Some ''Internal server error'') (Some 500),
          ps'))"

section \<open>Order service: the Order model\<close>

text \<open>
  What the order service draws from its surroundings while it handles one request: the
  replies of the customer and product services, the clock and \<open>Math.random\<close>.
  \<open>env_random36\<close> is \<open>Math.random().toString(36).substr(2, 9)\<close>.
\<close>

record Env =
  env_getCustomer :: "string \<Rightarrow> Customer axios"
  env_getProduct :: "string \<Rightarrow> Product axios"
  env_patchStock :: "string \<Rightarrow> nat \<Rightarrow> unit axios"
  env_dateNow :: nat
  env_random36 :: string
  env_createdAt :: nat
  env_updatedAt :: nat

text \<open>The schema's setters and validators: \<open>trim\<close>, \<open>maxlength\<close>, \<open>required\<close>, \<open>min: 0\<close>.\<close>

definition trimAddress :: "ShippingAddress \<Rightarrow> ShippingAddress" where
  "trimAddress a = \<lparr>street = map_option trim (street a), city = map_option trim (city a),
     state = map_option trim (state a), zipCode = map_option trim (zipCode a),
     country = map_option trim (country a)\<rparr>"

definition maxlength :: "nat \<Rightarrow> string option \<Rightarrow> bool" where
  "maxlength n v = (case v of None \<Rightarrow> True | Some s \<Rightarrow> length s \<le> n)"

definition addressValid :: "ShippingAddress \<Rightarrow> bool" where
  "addressValid a = (maxlength 200 (street a) \<and> maxlength 100 (city a) \<and> maxlength 100 (state a)
     \<and> maxlength 20 (zipCode a) \<and> maxlength 100 (country a))"

definition validateOrder :: "Order \<Rightarrow> bool" where
  "validateOrder doc = (ord_customerId doc \<noteq> [] \<and> ord_productId doc \<noteq> [] \<and> num_ge (ord_amount doc) 0
     \<and> (case ord_shippingAddress doc of None \<Rightarrow> True | Some a \<Rightarrow> addressValid a))"

text \<open>
  \<open>new OrderModel({...orderData, orderStatus: OrderStatus.PENDING, orderDate: new Date()})\<close>:
  the body's keys the schema knows are copied, the status is overwritten. An absent
  \<open>orderId\<close> is the empty string here: both are falsy for the pre-save hook.
\<close>

definition newOrderModel :: "Env \<Rightarrow> CreateOrderRequest \<Rightarrow> string \<Rightarrow> string \<Rightarrow> jsnum \<Rightarrow> Order" where
  "newOrderModel env orderData customerId productId amount =
     \<lparr>ord_orderId = (case req_orderId orderData of None \<Rightarrow> [] | Some i \<Rightarrow> i),
      ord_customerId = customerId, ord_productId = productId, ord_amount = amount,
      ord_orderStatus = PENDING,
      ord_shippingAddress = map_option trimAddress (req_shippingAddress orderData),
      ord_createdAt = env_createdAt env, ord_updatedAt = env_createdAt env\<rparr>"

text \<open>\<open>orderSchema.pre('save')\<close>: generate \<open>orderId\<close> if not provided.\<close>

definition generateOrderId :: "Env \<Rightarrow> string" where
  "generateOrderId env = ''ORD_'' @ showNat (env_dateNow env) @ ''_'' @ env_random36 env"

definition preSave :: "Env \<Rightarrow> Order \<Rightarrow> Order" where
  "preSave env doc = (if ord_orderId doc = [] then doc\<lparr>ord_orderId := generateOrderId env\<rparr> else doc)"

text \<open>
  \<open>save()\<close> of a new document: it throws (\<open>None\<close>) when a validator fails or the unique
  index on \<open>orderId\<close> refuses the insert; otherwise the document is appended. The
  store itself is reliable: a save fails only for these reasons.
\<close>

definition saveNew :: "Env \<Rightarrow> Order \<Rightarrow> Order list \<Rightarrow> (Order \<times> Order list) option" where
  "saveNew env doc orders =
     (if \<not> validateOrder doc then None
      else let d = preSave env doc in
        if ord_orderId d \<in> set (map ord_orderId orders) then None
        else Some (d, orders @ [d]))"

text \<open>
  \<open>save()\<close> of a document already stored: the stored document (found by its unique
  \<open>orderId\<close>) is replaced and \<open>updatedAt\<close> is set.
\<close>

definition saveExisting :: "nat \<Rightarrow> Order \<Rightarrow> Order list \<Rightarrow> Order \<times> Order list" where
  "saveExisting now doc orders =
     (let d = doc\<lparr>ord_updatedAt := now\<rparr>
      in (d, map (\<lambda>x. if ord_orderId x = ord_orderId d then d else x) orders))"

section \<open>Order service: createOrder\<close>

text \<open>
  The effects of one request, in the order the controller performs them: the calls to the
  collaborators, the writes to the order store and the warning it logs.
\<close>

datatype Event =
    CustomerLookup string
  | ProductLookup string nat
  | OrderSave Order
  | PaymentCharge PaymentRequest
  | StockDecrement string nat
  | LogWarn string

text \<open>The documents written to the order store, in order.\<close>

fun orderSaves :: "Event list \<Rightarrow> Order list" where
  "orderSaves [] = []"
| "orderSaves (OrderSave doc # es) = doc # orderSaves es"
| "orderSaves (e # es) = orderSaves es"

definition orderResponse :: "Order \<Rightarrow> OrderResponse" where
  "orderResponse savedOrder =
     \<lparr>or_customerId = ord_customerId savedOrder, or_orderId = ord_orderId savedOrder,
      or_productId = ord_productId savedOrder, or_orderStatus = ord_orderStatus savedOrder,
      or_amount = ord_amount savedOrder, or_paymentStatus = None,
      or_orderDate = ord_createdAt savedOrder, or_createdAt = ord_createdAt savedOrder,
      or_updatedAt = ord_updatedAt savedOrder\<rparr>"

definition internalError :: "OrderResponse HttpResponse" where
  "internalError = respond 500 (createApiResponse False None (Some ''Internal server error'') (Some ''Failed to create order''))"

text \<open>
  \<open>createOrder\<close> (orderController.ts). The state is the order store and the payment
  side's state; the result is the response, the effects and the new state. The
  \<open>catch\<close> block is \<open>internalError\<close>. The last case of the match on the three
  required fields cannot occur once they passed \<open>validateRequiredFields\<close>.
\<close>

definition createOrder ::
  "Env \<Rightarrow> (PaymentRequest \<Rightarrow> 'p \<Rightarrow> PaymentResponse axios \<times> 'p) \<Rightarrow> CreateOrderRequest \<Rightarrow> Order list \<times> 'p
     \<Rightarrow> (OrderResponse HttpResponse \<times> Event list) \<times> (Order list \<times> 'p)" where
  "createOrder env post orderData st =
     (let validation = validateRequiredFields orderData in
      if \<not> isValid validation then
        ((respond 400 (createApiResponse False None (Some ''Validation failed'')
            (Some (join '', '' (map snd validation)))), []), st)
      else
        (case (req_customerId orderData, req_productId orderData, req_amount orderData) of
           (Some customerId, Some productId, Some amount) \<Rightarrow>
             if num_le amount 0 then
               ((respond 400 (createApiResponse False None (Some ''Amount must be a positive number'') None), []), st)
             else
               let customerValidation = validateCustomer (env_getCustomer env) customerId;
                   tr1 = [CustomerLookup customerId]
               in if \<not> sr_success customerValidation then
                 ((respond (statusCodeOr customerValidation 400)
                     (createApiResponse False None (Some ''Customer validation failed'') (sr_error customerValidation)),
                   tr1), st)
               else
                 let productValidation = validateProduct (env_getProduct env) productId 1;
                     tr2 = tr1 @ [ProductLookup productId 1]
                 in if \<not> sr_success productValidation then
                   ((respond (statusCodeOr productValidation 400)
                       (createApiResponse False None (Some ''Product validation failed'') (sr_error productValidation)),
                     tr2), st)
                 else
                   (case saveNew env (newOrderModel env orderData customerId productId amount) (fst st) of
                      None \<Rightarrow> ((internalError, tr2), st)
                    | Some (savedOrder, orders1) \<Rightarrow>
                        let (paymentResult, ps1) =
                              paymentClient post customerId (ord_orderId savedOrder) productId amount (snd st);
                            tr4 = tr2 @ [OrderSave savedOrder,
                              PaymentCharge (clientPaymentData customerId (ord_orderId savedOrder) productId amount)]
                        in if \<not> sr_success paymentResult then
                          let (cancelled, orders2) =
                                saveExisting (env_updatedAt env) (savedOrder\<lparr>ord_orderStatus := CANCELLED\<rparr>) orders1
                          in ((respond (statusCodeOr paymentResult 400)
                                 (createApiResponse False None (Some ''Payment processing failed'') (sr_error paymentResult)),
                               tr4 @ [OrderSave cancelled]), (orders2, ps1))
                        else
                          let (confirmed, orders2) =
                                saveExisting (env_updatedAt env) (savedOrder\<lparr>ord_orderStatus := CONFIRMED\<rparr>) orders1;
                              stockUpdateResult = updateProductStock (env_patchStock env) productId 1;
                              tr6 = tr4 @ [OrderSave confirmed, StockDecrement productId 1] @
                                (if \<not> sr_success stockUpdateResult
                                 then [LogWarn (''Failed to update product stock for order: '' @ ord_orderId confirmed)]
                                 else [])
                          in ((respond 201 (createApiResponse True (Some (orderResponse confirmed))
                                 (Some ''Order created and payment processed successfully'') None),
                               tr6), (orders2, ps1)))
         | _ \<Rightarrow> ((internalError, []), st)))"

section \<open>Payment service\<close>

datatype PaymentStatus = PAY_PENDING | PAY_PROCESSING | PAY_COMPLETED | PAY_FAILED | PAY_REFUNDED

text \<open>The persisted payment document (\<open>paymentSchema\<close>); its timestamps are left out.\<close>

record Payment =
  pay_paymentId :: string
  pay_customerId :: string
  pay_orderId :: string
  pay_productId :: string
  pay_amount :: jsnum
  pay_status :: PaymentStatus
  pay_paymentMethod :: string
  pay_transactionId :: "string option"

record TransactionMessage =
  msg_customerId :: string
  msg_orderId :: string
  msg_productId :: string
  msg_amount :: jsnum
  msg_transactionId :: string
  msg_timestamp :: nat

text \<open>
  The queue channel of \<open>RabbitMQService\<close>: not initialised, or open with a
  \<open>sendToQueue\<close> that returns a boolean or throws.
\<close>

datatype SendResult = Returned bool | Threw

datatype Channel = NoChannel | Chan "TransactionMessage \<Rightarrow> SendResult"

text \<open>\<open>publishTransaction\<close> (rabbitmqService.ts): every failure is caught and reported as \<open>false\<close>.\<close>

definition publishTransaction :: "Channel \<Rightarrow> TransactionMessage \<Rightarrow> bool" where
  "publishTransaction channel transactionData =
     (case channel of
        NoChannel \<Rightarrow> False
      | Chan sendToQueue \<Rightarrow> (case sendToQueue transactionData of Returned published \<Rightarrow> published | Threw \<Rightarrow> False))"

text \<open>
  What the payment service draws from its surroundings for one charge: the clock, the
  three \<open>Math.random()\<close> draws (\<open>penv_random36\<close> for the payment id, \<open>penv_outcome\<close> for
  \<open>isSuccess\<close>, \<open>penv_reason\<close> for the failure reason), \<open>generateId()\<close>, the channel and
  the text of the schema validator's error details.
\<close>

record PaymentEnv =
  penv_dateNow :: nat
  penv_random36 :: string
  penv_outcome :: real
  penv_reason :: real
  penv_txnNow :: nat
  penv_generateId :: string
  penv_timestamp :: nat
  penv_channel :: Channel
  penv_joiDetails :: string

text \<open>
  \<open>validateCreatePayment\<close> (the Joi schema mounted on \<open>POST /api/payments\<close>): the three
  identifiers are non-empty strings, the amount is a number of at least 0.01 (Joi refuses
  the infinities, and numbers beyond the safe integers; \<open>JSON.stringify\<close> sends a
  non-finite amount as \<open>null\<close>, which is refused as well), the method is one of the
  listed ones when present.
\<close>

definition validateCreatePayment :: "PaymentRequest \<Rightarrow> bool" where
  "validateCreatePayment body =
     (preq_customerId body \<noteq> [] \<and> preq_orderId body \<noteq> [] \<and> preq_productId body \<noteq> []
      \<and> (case preq_amount body of Fin r \<Rightarrow> 0.01 \<le> r \<and> r \<le> 9007199254740991 | _ \<Rightarrow> False)
      \<and> (case preq_paymentMethod body of
            None \<Rightarrow> True
          | Some m \<Rightarrow> m \<in> set [''credit_card'', ''debit_card'', ''paypal'', ''bank_transfer'', ''cash_on_delivery'']))"

text \<open>\<open>new PaymentModel({...paymentData, status: PaymentStatus.PENDING, ...})\<close>.\<close>

definition newPaymentModel :: "PaymentRequest \<Rightarrow> Payment" where
  "newPaymentModel paymentData =
     \<lparr>pay_paymentId = [], pay_customerId = preq_customerId paymentData, pay_orderId = preq_orderId paymentData,
      pay_productId = preq_productId paymentData, pay_amount = preq_amount paymentData,
      pay_status = PAY_PENDING,
      pay_paymentMethod = (case preq_paymentMethod paymentData of None \<Rightarrow> ''bank_transfer'' | Some m \<Rightarrow> m),
      pay_transactionId = None\<rparr>"

definition validatePayment :: "Payment \<Rightarrow> bool" where
  "validatePayment doc = (pay_customerId doc \<noteq> [] \<and> pay_orderId doc \<noteq> [] \<and> pay_productId doc \<noteq> []
     \<and> num_ge (pay_amount doc) 0
     \<and> pay_paymentMethod doc \<in> set [''credit_card'', ''debit_card'', ''paypal'', ''bank_transfer'', ''cash_on_delivery''])"

definition generatePaymentId :: "PaymentEnv \<Rightarrow> string" where
  "generatePaymentId penv = ''PAY_'' @ showNat (penv_dateNow penv) @ ''_'' @ penv_random36 penv"

text \<open>
  \<open>save()\<close> of a new payment: the pre-save hook generates \<open>paymentId\<close>; the save throws
  (\<open>None\<close>) when a validator fails or the unique index on \<open>paymentId\<close> refuses it.
\<close>

definition savePayment :: "PaymentEnv \<Rightarrow> Payment \<Rightarrow> Payment list \<Rightarrow> (Payment \<times> Payment list) option" where
  "savePayment penv doc payments =
     (if \<not> validatePayment doc then None
      else let d = (if pay_paymentId doc = [] then doc\<lparr>pay_paymentId := generatePaymentId penv\<rparr> else doc) in
        if pay_paymentId d \<in> set (map pay_paymentId payments) then None
        else Some (d, payments @ [d]))"

text \<open>
  \<open>save()\<close> of a stored payment: it throws when the unique sparse index on
  \<open>transactionId\<close> finds the identifier on another payment.
\<close>

definition updatePayment :: "Payment \<Rightarrow> Payment list \<Rightarrow> Payment list option" where
  "updatePayment doc payments =
     (if pay_transactionId doc \<noteq> None \<and>
         (\<exists>p \<in> set payments. pay_paymentId p \<noteq> pay_paymentId doc \<and> pay_transactionId p = pay_transactionId doc)
      then None
      else Some (map (\<lambda>x. if pay_paymentId x = pay_paymentId doc then doc else x) payments))"

text \<open>
  \<open>simulatePaymentProcessing\<close>: the result is \<open>{success: true, transactionId}\<close> or
  \<open>{success: false, error}\<close>. The delay is not modelled.
\<close>

datatype SimResult = SimSuccess string | SimFailure string

definition simulatePaymentProcessing :: "PaymentEnv \<Rightarrow> Payment \<Rightarrow> SimResult" where
  "simulatePaymentProcessing penv payment =
     (let isSuccess = (penv_outcome penv > 0.05) in
      if isSuccess then SimSuccess (''TXN_'' @ showNat (penv_txnNow penv) @ ''_'' @ penv_generateId penv)
      else SimFailure
        (if num_gt (pay_amount payment) 100000000 then ''Transaction amount exceeds limit''
         else if num_lt (pay_amount payment) 1 then ''Minimum transaction amount not met''
         else if penv_reason penv > 0.5 then ''Insufficient funds''
         else ''Card declined by issuer''))"

text \<open>The effects of one charge, in the order the controller performs them.\<close>

datatype PaymentEvent =
    PaymentSave Payment
  | GatewayAttempt Payment
  | QueuePublish TransactionMessage bool
  | PaymentLogWarn string

definition paymentInternalError :: "PaymentResponse HttpResponse" where
  "paymentInternalError = respond 500 (createApiResponse False None (Some ''Internal server error'') (Some ''Failed to process payment''))"

text \<open>\<open>processPayment\<close> (paymentController.ts); the \<open>catch\<close> block is \<open>paymentInternalError\<close>.\<close>

definition processPayment ::
  "PaymentEnv \<Rightarrow> PaymentRequest \<Rightarrow> Payment list \<Rightarrow> (PaymentResponse HttpResponse \<times> PaymentEvent list) \<times> Payment list" where
  "processPayment penv paymentData payments =
     (case savePayment penv (newPaymentModel paymentData) payments of
        None \<Rightarrow> ((paymentInternalError, []), payments)
      | Some (savedPayment, payments1) \<Rightarrow>
          let tr = [PaymentSave savedPayment, GatewayAttempt savedPayment] in
          (case simulatePaymentProcessing penv savedPayment of
             SimSuccess transactionId \<Rightarrow>
               let completed = savedPayment\<lparr>pay_status := PAY_COMPLETED, pay_transactionId := Some transactionId\<rparr> in
               (case updatePayment completed payments1 of
                  None \<Rightarrow> ((paymentInternalError, tr), payments1)
                | Some payments2 \<Rightarrow>
                    let transactionMessage =
                          \<lparr>msg_customerId = pay_customerId completed, msg_orderId = pay_orderId completed,
                           msg_productId = preq_productId paymentData, msg_amount = pay_amount completed,
                           msg_transactionId = transactionId, msg_timestamp = penv_timestamp penv\<rparr>;
                        messagePublished = publishTransaction (penv_channel penv) transactionMessage
                    in ((respond 201 (createApiResponse True
                           (Some \<lparr>presp_success = True, presp_paymentId = Some (pay_paymentId completed),
                                  presp_transactionId = pay_transactionId completed,
                                  presp_message = Some ''Payment processed successfully''\<rparr>)
                           (Some ''Payment processed successfully'') None),
                         tr @ [PaymentSave completed, QueuePublish transactionMessage messagePublished] @
                           (if \<not> messagePublished
                            then [PaymentLogWarn (''Failed to publish transaction message for payment: '' @ pay_paymentId completed)]
                            else [])),
                        payments2))
           | SimFailure err \<Rightarrow>
               let failed = savedPayment\<lparr>pay_status := PAY_FAILED\<rparr> in
               (case updatePayment failed payments1 of
                  None \<Rightarrow> ((paymentInternalError, tr), payments1)
                | Some payments2 \<Rightarrow>
                    ((respond 400 (createApiResponse False None (Some ''Payment processing failed'') (Some err)),
                      tr @ [PaymentSave failed]), payments2))))"

text \<open>
  Ordering of effects: in \<open>beforeAny P Q tr\<close> no event satisfying \<open>Q\<close> occurs in \<open>tr\<close>
  unless an event satisfying \<open>P\<close> occurs earlier.
\<close>

fun beforeAny :: "('e \<Rightarrow> bool) \<Rightarrow> ('e \<Rightarrow> bool) \<Rightarrow> 'e list \<Rightarrow> bool" where
  "beforeAny P Q [] = True"
| "beforeAny P Q (e # es) = (if Q e then False else if P e then True else beforeAny P Q es)"

fun isPendingSave :: "PaymentEvent \<Rightarrow> bool" where
  "isPendingSave (PaymentSave p) = (pay_status p = PAY_PENDING)"
| "isPendingSave e = False"

fun isGatewayAttempt :: "PaymentEvent \<Rightarrow> bool" where
  "isGatewayAttempt (GatewayAttempt p) = True"
| "isGatewayAttempt e = False"

fun isCompletedSave :: "PaymentEvent \<Rightarrow> bool" where
  "isCompletedSave (PaymentSave p) = (pay_status p = PAY_COMPLETED \<and> pay_transactionId p \<noteq> None)"
| "isCompletedSave e = False"

fun isPublish :: "PaymentEvent \<Rightarrow> bool" where
  "isPublish (QueuePublish m published) = True"
| "isPublish e = False"

text \<open>\<open>router.post('/', validateCreatePayment, processPayment)\<close>.\<close>

definition paymentRoute ::
  "PaymentEnv \<Rightarrow> PaymentRequest \<Rightarrow> Payment list \<Rightarrow> (PaymentResponse HttpResponse \<times> PaymentEvent list) \<times> Payment list" where
  "paymentRoute penv body payments =
     (if \<not> validateCreatePayment body
      then ((respond 400 (createApiResponse False None (Some ''Validation failed'') (Some (penv_joiDetails penv))), []), payments)
      else processPayment penv body payments)"

section \<open>The order service wired to the payment service\<close>

text \<open>
  What the network does to the order service's POST: the request is delivered and
  answered; the connection is refused; the request is served but the reply never
  arrives (a timeout); the request never arrives.
\<close>

datatype Transport = Delivered | Refused | ReplyLost | RequestLost

definition postPayment :: "Transport \<Rightarrow> PaymentEnv \<Rightarrow> PaymentRequest \<Rightarrow> Payment list \<Rightarrow> PaymentResponse axios \<times> Payment list" where
  "postPayment net penv body payments =
     (case net of
        Refused \<Rightarrow> (ConnRefused, payments)
      | RequestLost \<Rightarrow> (NoResponse, payments)
      | ReplyLost \<Rightarrow> (NoResponse, snd (paymentRoute penv body payments))
      | Delivered \<Rightarrow>
          (let ((r, tr), payments') = paymentRoute penv body payments
           in (Replied (http_status r) (JsonObject (http_body r)), payments')))"

text \<open>One order submission against both stores, and a sequence of them.\<close>

record Submission =
  sub_env :: Env
  sub_net :: Transport
  sub_penv :: PaymentEnv
  sub_request :: CreateOrderRequest

definition submitOrder ::
  "Submission \<Rightarrow> Order list \<times> Payment list \<Rightarrow> (OrderResponse HttpResponse \<times> Event list) \<times> (Order list \<times> Payment list)" where
  "submitOrder sub st = createOrder (sub_env sub) (postPayment (sub_net sub) (sub_penv sub)) (sub_request sub) st"

fun submitOrders :: "Submission list \<Rightarrow> Order list \<times> Payment list \<Rightarrow> Order list \<times> Payment list" where
  "submitOrders [] st = st"
| "submitOrders (sub # subs) st = submitOrders subs (snd (submitOrder sub st))"

text \<open>Every confirmed order has a completed payment for its \<open>orderId\<close>.\<close>

definition confirmedOrdersPaid :: "Order list \<times> Payment list \<Rightarrow> bool" where
  "confirmedOrdersPaid st =
     (\<forall>ord \<in> set (fst st). ord_orderStatus ord = CONFIRMED \<longrightarrow>
        (\<exists>p \<in> set (snd st). pay_orderId p = ord_orderId ord \<and> pay_status p = PAY_COMPLETED))"

section \<open>Transaction worker: the audit consumer\<close>

text \<open>
  A field of the parsed message: absent, a string, a number, or a value of another
  JavaScript type.
\<close>

datatype jsval = Absent | Str string | Num jsnum | Other

record RawMessage =
  raw_transactionId :: jsval
  raw_customerId :: jsval
  raw_orderId :: jsval
  raw_productId :: jsval
  raw_amount :: jsval
  raw_timestamp :: jsval

text \<open>
  The persisted audit record (\<open>transactionHistorySchema\<close>). The schema has no
  \<open>timestamp\<close> path, so the timestamp the consumer passes is not stored; the
  schema's own timestamps are left out.
\<close>

record TransactionHistory =
  txh_transactionId :: string
  txh_customerId :: string
  txh_orderId :: string
  txh_productId :: string
  txh_amount :: jsnum
  txh_status :: string

text \<open>
  \<open>validateTransactionMessage\<close>, the type guard \<open>data is TransactionMessage\<close>.
\<close>

definition isNonEmptyString :: "jsval \<Rightarrow> bool" where
  "isNonEmptyString v = (case v of Str s \<Rightarrow> 0 < length s | _ \<Rightarrow> False)"

definition validateTransactionMessage :: "RawMessage \<Rightarrow> bool" where
  "validateTransactionMessage data =
     (if raw_productId data = Str [] then False
      else (isNonEmptyString (raw_transactionId data) \<and> isNonEmptyString (raw_customerId data)
        \<and> isNonEmptyString (raw_orderId data) \<and> isNonEmptyString (raw_productId data)
        \<and> (case raw_amount data of Num n \<Rightarrow> num_ge n 0 | _ \<Rightarrow> False)))"

text \<open>
  \<open>save()\<close> of a new audit record: the paths whose validators fail (\<open>required\<close>,
  \<open>min: 0\<close>, the status \<open>enum\<close>), then the unique index on \<open>transactionId\<close>.
\<close>

datatype SaveError = ValidationError "string list" | DuplicateKey

definition failedPaths :: "TransactionHistory \<Rightarrow> string list" where
  "failedPaths doc =
     (if txh_customerId doc = [] then [''customerId''] else []) @
     (if txh_orderId doc = [] then [''orderId''] else []) @
     (if txh_productId doc = [] then [''productId''] else []) @
     (if \<not> num_ge (txh_amount doc) 0 then [''amount''] else []) @
     (if txh_status doc \<notin> set [''completed'', ''failed'', ''pending'', ''refunded''] then [''status''] else [])"

definition saveTransaction :: "TransactionHistory \<Rightarrow> TransactionHistory list \<Rightarrow> SaveError + TransactionHistory list" where
  "saveTransaction doc store =
     (if failedPaths doc \<noteq> [] then Inl (ValidationError (failedPaths doc))
      else if txh_transactionId doc \<in> set (map txh_transactionId store) then Inl DuplicateKey
      else Inr (store @ [doc]))"

text \<open>
  \<open>error.message.includes('productId: Path `productId` is required')\<close>: the validation
  error's message lists every failed path.
\<close>

definition productIdRequired :: "SaveError \<Rightarrow> bool" where
  "productIdRequired err = (case err of ValidationError paths \<Rightarrow> ''productId'' \<in> set paths | DuplicateKey \<Rightarrow> False)"

text \<open>One delivery: \<open>JSON.parse\<close> throws on \<open>Malformed\<close> content.\<close>

datatype Delivery = Malformed | Parsed RawMessage

datatype Ack = Acked | Nacked

definition findOne :: "string \<Rightarrow> TransactionHistory list \<Rightarrow> TransactionHistory option" where
  "findOne transactionId store = find (\<lambda>r. txh_transactionId r = transactionId) store"

text \<open>\<open>processMessage\<close> (rabbitmqConsumer.ts); \<open>Nacked\<close> is \<open>nack(msg, false, false)\<close>.\<close>

definition processMessage :: "Delivery \<Rightarrow> TransactionHistory list \<Rightarrow> Ack \<times> TransactionHistory list" where
  "processMessage msg store =
     (case msg of
        Malformed \<Rightarrow> (Nacked, store)
      | Parsed rawData \<Rightarrow>
          if \<not> validateTransactionMessage rawData then (Acked, store)
          else
            (case (raw_transactionId rawData, raw_customerId rawData, raw_orderId rawData,
                   raw_productId rawData, raw_amount rawData) of
               (Str transactionId, Str customerId, Str orderId, Str productId, Num amount) \<Rightarrow>
                 (case findOne transactionId store of
                    Some existingTransaction \<Rightarrow> (Acked, store)
                  | None \<Rightarrow>
                      (case saveTransaction
                              \<lparr>txh_transactionId = transactionId, txh_customerId = customerId,
                               txh_orderId = orderId, txh_productId = productId, txh_amount = amount,
                               txh_status = ''completed''\<rparr> store of
                         Inr store1 \<Rightarrow> (Acked, store1)
                       | Inl err \<Rightarrow> if productIdRequired err then (Acked, store) else (Nacked, store)))
             | _ \<Rightarrow> (Nacked, store)))"

text \<open>
  The consumer with \<open>prefetch(1)\<close> and manual acknowledgement: deliveries are processed
  one at a time, each against the store the previous one left.
\<close>

fun consume :: "Delivery list \<Rightarrow> TransactionHistory list \<Rightarrow> Ack list \<times> TransactionHistory list" where
  "consume [] store = ([], store)"
| "consume (msg # msgs) store =
     (let (a, store1) = processMessage msg store;
          (as, store2) = consume msgs store1
      in (a # as, store2))"

definition recordsOf :: "string \<Rightarrow> TransactionHistory list \<Rightarrow> TransactionHistory list" where
  "recordsOf transactionId store = filter (\<lambda>r. txh_transactionId r = transactionId) store"

text \<open>A delivery bears a transaction id when it is a \<open>TransactionMessage\<close> with that id.\<close>

definition bears :: "string \<Rightarrow> Delivery \<Rightarrow> bool" where
  "bears transactionId msg =
     (case msg of Malformed \<Rightarrow> False
      | Parsed rawData \<Rightarrow> validateTransactionMessage rawData \<and> raw_transactionId rawData = Str transactionId)"

section \<open>Sample data\<close>

text \<open>Scenario E of the specification: the message with transaction id \<open>TXN_1\<close>.\<close>

definition sampleRaw :: RawMessage where
  "sampleRaw = \<lparr>raw_transactionId = Str ''TXN_1'', raw_customerId = Str ''CUST_1'', raw_orderId = Str ''ORD_1'',
     raw_productId = Str ''PROD_1'', raw_amount = Num (Fin 50000), raw_timestamp = Str ''2025-01-01T00:00:00.000Z''\<rparr>"

definition sampleDelivery :: Delivery where
  "sampleDelivery = Parsed sampleRaw"

text \<open>
  Scenario A of the specification: customer \<open>CUST_1\<close>, product \<open>PROD_1\<close> with stock 5,
  amount 50000. Any other customer or product is answered with 404.
\<close>

definition sampleCustomers :: "string \<Rightarrow> Customer axios" where
  "sampleCustomers customerId =
     (if customerId = ''CUST_1''
      then Replied 200 (JsonObject (createApiResponse True (Some \<lparr>cust_customerId = ''CUST_1'', cust_isActive = True\<rparr>)
             (Some ''Customer retrieved successfully'') None))
      else Replied 404 (JsonObject (createApiResponse False None (Some ''Customer not found'') None)))"

definition sampleProducts :: "string \<Rightarrow> Product axios" where
  "sampleProducts productId =
     (if productId = ''PROD_1''
      then Replied 200 (JsonObject (createApiResponse True
             (Some \<lparr>prod_productId = ''PROD_1'', prod_stock = 5, prod_isActive = True\<rparr>)
             (Some ''Product retrieved successfully'') None))
      else Replied 404 (JsonObject (createApiResponse False None (Some ''Product not found'') None)))"

definition stockUpdated :: "string \<Rightarrow> nat \<Rightarrow> unit axios" where
  "stockUpdated productId quantity =
     Replied 200 (JsonObject (createApiResponse True None (Some ''Product stock updated successfully'') None))"

definition stockRefused :: "string \<Rightarrow> nat \<Rightarrow> unit axios" where
  "stockRefused productId quantity =
     Replied 400 (JsonObject (createApiResponse False None (Some ''Insufficient stock'') None))"

definition sampleEnv :: Env where
  "sampleEnv = \<lparr>env_getCustomer = sampleCustomers, env_getProduct = sampleProducts,
     env_patchStock = stockUpdated, env_dateNow = 1757494119514, env_random36 = ''yuujm50pc'',
     env_createdAt = 1757494119514, env_updatedAt = 1757494121000\<rparr>"

definition sampleRequest :: CreateOrderRequest where
  "sampleRequest = \<lparr>req_customerId = Some ''CUST_1'', req_productId = Some ''PROD_1'',
     req_amount = Some (Fin 50000), req_shippingAddress = None, req_orderId = None\<rparr>"

text \<open>
  Scenario A with a collaborator out of reach: the customer service or the product
  service does not answer within the timeout, or the customer service refuses the
  connection.
\<close>

definition customerTimesOut :: Env where
  "customerTimesOut = sampleEnv\<lparr>env_getCustomer := (\<lambda>customerId. NoResponse)\<rparr>"

definition productTimesOut :: Env where
  "productTimesOut = sampleEnv\<lparr>env_getProduct := (\<lambda>productId. NoResponse)\<rparr>"

definition customerRefuses :: Env where
  "customerRefuses = sampleEnv\<lparr>env_getCustomer := (\<lambda>customerId. ConnRefused)\<rparr>"

text \<open>Two stand-ins for the payment service, as the order service's tests mock it.\<close>

definition paymentDeclines :: "PaymentRequest \<Rightarrow> unit \<Rightarrow> PaymentResponse axios \<times> unit" where
  "paymentDeclines body u =
     (Replied 400 (JsonObject (createApiResponse False None (Some ''Payment processing failed'')
        (Some ''Card declined by issuer''))), u)"

definition paymentApproves :: "PaymentRequest \<Rightarrow> unit \<Rightarrow> PaymentResponse axios \<times> unit" where
  "paymentApproves body u =
     (Replied 201 (JsonObject (createApiResponse True
        (Some \<lparr>presp_success = True, presp_paymentId = Some ''PAY_123'', presp_transactionId = Some ''TXN_123'',
               presp_message = Some ''Payment processed successfully''\<rparr>)
        (Some ''Payment processed successfully'') None)), u)"

text \<open>The payment service's surroundings for one charge: the gateway draw succeeds (0.5) or fails (0.01).\<close>

definition samplePaymentEnv :: PaymentEnv where
  "samplePaymentEnv = \<lparr>penv_dateNow = 1757494119600, penv_random36 = ''a1b2c3d4e'', penv_outcome = 0.5,
     penv_reason = 0.9, penv_txnNow = 1757494120900, penv_generateId = ''k9x8w7v6umfdz3l2a'',
     penv_timestamp = 1757494120901, penv_channel = Chan (\<lambda>m. Returned True),
     penv_joiDetails = ''\"amount\" must be a number''\<rparr>"

definition sampleSubmission :: Submission where
  "sampleSubmission = \<lparr>sub_env = sampleEnv, sub_net = Delivered, sub_penv = samplePaymentEnv,
     sub_request = sampleRequest\<rparr>"

definition sampleCharge :: PaymentRequest where
  "sampleCharge = clientPaymentData ''CUST_1'' ''ORD_1757494119514_yuujm50pc'' ''PROD_1'' (Fin 50000)"

text \<open>
  Variations of scenario A: the amount at the ceiling of 100000000, with the gateway draw
  succeeding and failing; an amount above the ceiling (200000000) with the draw succeeding
  and failing (scenario D); an infinite amount (the JSON literal \<open>1e999\<close>); a body that
  carries an \<open>orderId\<close>.
\<close>

definition atCeiling :: Submission where
  "atCeiling = sampleSubmission\<lparr>sub_request := sampleRequest\<lparr>req_amount := Some (Fin 100000000)\<rparr>\<rparr>"

definition atCeilingDeclined :: Submission where
  "atCeilingDeclined = atCeiling\<lparr>sub_penv := samplePaymentEnv\<lparr>penv_outcome := 0.01\<rparr>\<rparr>"

definition aboveCeiling :: Submission where
  "aboveCeiling = sampleSubmission\<lparr>sub_request := sampleRequest\<lparr>req_amount := Some (Fin 200000000)\<rparr>\<rparr>"

definition aboveCeilingDeclined :: Submission where
  "aboveCeilingDeclined = sampleSubmission\<lparr>sub_request := sampleRequest\<lparr>req_amount := Some (Fin 200000000)\<rparr>,
     sub_penv := samplePaymentEnv\<lparr>penv_outcome := 0.01\<rparr>\<rparr>"

definition infiniteAmount :: Submission where
  "infiniteAmount = sampleSubmission\<lparr>sub_request := sampleRequest\<lparr>req_amount := Some PosInf\<rparr>\<rparr>"

definition clientChosenId :: Submission where
  "clientChosenId = sampleSubmission\<lparr>sub_request := sampleRequest\<lparr>req_orderId := Some ''ORD_CHOSEN_BY_CLIENT''\<rparr>\<rparr>"

section \<open>The audit consumer ingests a transaction once\<close>

lemma findOne_None: "findOne t store = None \<longleftrightarrow> t \<notin> txh_transactionId ` set store"
  by (auto simp: findOne_def find_None_iff)

lemma bears_fields:
  assumes "bears t m"
  obtains raw c oid p a where "m = Parsed raw" "validateTransactionMessage raw"
    "raw_transactionId raw = Str t" "raw_customerId raw = Str c" "raw_orderId raw = Str oid"
    "raw_productId raw = Str p" "raw_amount raw = Num a"
    "c \<noteq> []" "oid \<noteq> []" "p \<noteq> []" "num_ge a 0"
  using assms
  by (auto simp: bears_def validateTransactionMessage_def isNonEmptyString_def
      split: Delivery.splits jsval.splits if_splits)

lemma processMessage_existing:
  assumes "bears t m" and "t \<in> txh_transactionId ` set store"
  shows "processMessage m store = (Acked, store)"
proof -
  from assms(1) obtain raw c oid p a where f: "m = Parsed raw" "validateTransactionMessage raw"
    "raw_transactionId raw = Str t" "raw_customerId raw = Str c" "raw_orderId raw = Str oid"
    "raw_productId raw = Str p" "raw_amount raw = Num a"
    by (rule bears_fields)
  from assms(2) have "findOne t store \<noteq> None" by (simp add: findOne_None)
  then obtain r where "findOne t store = Some r" by blast
  with f show ?thesis by (simp add: processMessage_def)
qed

lemma processMessage_first:
  assumes "bears t m" and "t \<notin> txh_transactionId ` set store"
  shows "\<exists>r. processMessage m store = (Acked, store @ [r]) \<and> txh_transactionId r = t \<and> txh_status r = ''completed''"
proof -
  from assms(1) obtain raw c oid p a where f: "m = Parsed raw" "validateTransactionMessage raw"
    "raw_transactionId raw = Str t" "raw_customerId raw = Str c" "raw_orderId raw = Str oid"
    "raw_productId raw = Str p" "raw_amount raw = Num a"
    and ne: "c \<noteq> []" "oid \<noteq> []" "p \<noteq> []" "num_ge a 0"
    by (rule bears_fields)
  from assms(2) have "findOne t store = None" by (simp add: findOne_None)
  with f ne assms(2) show ?thesis
    by (simp add: processMessage_def saveTransaction_def failedPaths_def)
qed

lemma saveTransaction_Inr:
  "saveTransaction doc store = Inr store1 \<Longrightarrow>
     store1 = store @ [doc] \<and> txh_transactionId doc \<notin> txh_transactionId ` set store"
  by (auto simp: saveTransaction_def split: if_splits)

lemma processMessage_store:
  "snd (processMessage m store) = store \<or>
   (\<exists>r. snd (processMessage m store) = store @ [r] \<and> txh_transactionId r \<notin> txh_transactionId ` set store)"
  by (auto simp: processMessage_def dest!: saveTransaction_Inr
      split: Delivery.splits jsval.splits option.splits sum.splits)

lemma processMessage_distinct:
  assumes "distinct (map txh_transactionId store)"
  shows "distinct (map txh_transactionId (snd (processMessage m store)))"
  using processMessage_store [of m store] assms by auto

text \<open>Whatever is delivered, no transaction id is ever stored twice.\<close>

lemma consume_distinct:
  "distinct (map txh_transactionId store) \<Longrightarrow> distinct (map txh_transactionId (snd (consume ms store)))"
proof (induction ms arbitrary: store)
  case Nil
  then show ?case by simp
next
  case (Cons m ms)
  from Cons.prems have "distinct (map txh_transactionId (snd (processMessage m store)))"
    by (rule processMessage_distinct)
  then have "distinct (map txh_transactionId (snd (consume ms (snd (processMessage m store)))))"
    by (rule Cons.IH)
  then show ?case by (simp add: split_beta)
qed

lemma consume_redeliveries:
  assumes "\<forall>m \<in> set ms. bears t m" and "t \<in> txh_transactionId ` set store"
  shows "consume ms store = (replicate (length ms) Acked, store)"
  using assms
proof (induction ms)
  case Nil
  then show ?case by simp
next
  case (Cons m ms)
  then have "processMessage m store = (Acked, store)"
    using processMessage_existing [of t m store] by simp
  with Cons show ?case by simp
qed

lemma recordsOf_one:
  assumes "distinct (map txh_transactionId store)" and "t \<in> txh_transactionId ` set store"
  shows "length (recordsOf t store) = 1"
  using assms unfolding recordsOf_def
proof (induction store)
  case Nil
  then show ?case by simp
next
  case (Cons r rs)
  show ?case
  proof (cases "txh_transactionId r = t")
    case True
    with Cons.prems have "filter (\<lambda>r. txh_transactionId r = t) rs = []"
      by (auto simp: filter_empty_conv image_iff)
    with True show ?thesis by simp
  next
    case False
    with Cons show ?thesis by auto
  qed
qed

lemma consume_keeps:
  "t \<in> txh_transactionId ` set store \<Longrightarrow> t \<in> txh_transactionId ` set (snd (consume ms store))"
proof (induction ms arbitrary: store)
  case Nil
  then show ?case by simp
next
  case (Cons m ms)
  from processMessage_store [of m store] Cons.prems
  have "t \<in> txh_transactionId ` set (snd (processMessage m store))" by auto
  then have "t \<in> txh_transactionId ` set (snd (consume ms (snd (processMessage m store))))"
    by (rule Cons.IH)
  then show ?case by (simp add: split_beta)
qed

text \<open>
  Claim C3. Deliveries are processed one at a time (\<open>prefetch(1)\<close>). Once a message
  bearing transaction id \<open>t\<close> has been delivered, the store holds exactly one record
  with \<open>t\<close> after any further deliveries whatever; and when the further deliveries are
  redeliveries of messages bearing \<open>t\<close>, any number of them, each is acknowledged and
  none inserts a record: the store is the one the first delivery left. A message bears
  \<open>t\<close> when it passes \<open>validateTransactionMessage\<close>, the type guard of
  \<open>TransactionMessage\<close>, with \<open>transactionId\<close> \<open>t\<close>; the store it meets has no
  transaction id twice, as every store the consumer leaves.
\<close>

theorem C3_redelivery_yields_one_audit_record:
  assumes "distinct (map txh_transactionId store)"
    and "bears t msg"
  shows "length (recordsOf t (snd (consume (msg # deliveries) store))) = 1
       \<and> distinct (map txh_transactionId (snd (consume (msg # deliveries) store)))
       \<and> fst (processMessage msg store) = Acked
       \<and> ((\<forall>m \<in> set deliveries. bears t m) \<longrightarrow>
            snd (consume (msg # deliveries) store) = snd (processMessage msg store)
          \<and> fst (consume (msg # deliveries) store) = replicate (Suc (length deliveries)) Acked)"
proof -
  obtain store1 where first: "processMessage msg store = (Acked, store1)" and t1: "t \<in> txh_transactionId ` set store1"
  proof (cases "t \<in> txh_transactionId ` set store")
    case True
    with assms(2) have "processMessage msg store = (Acked, store)" by (rule processMessage_existing)
    with True that show ?thesis by blast
  next
    case False
    with assms(2) obtain r where "processMessage msg store = (Acked, store @ [r])" "txh_transactionId r = t"
      using processMessage_first by blast
    with that show ?thesis by auto
  qed
  have c: "snd (consume (msg # deliveries) store) = snd (consume deliveries store1)"
    and a: "fst (consume (msg # deliveries) store) = Acked # fst (consume deliveries store1)"
    using first by (simp_all add: split_beta)
  from assms(1) have d: "distinct (map txh_transactionId (snd (consume (msg # deliveries) store)))"
    by (rule consume_distinct)
  from t1 have "t \<in> txh_transactionId ` set (snd (consume deliveries store1))" by (rule consume_keeps)
  with d have one: "length (recordsOf t (snd (consume (msg # deliveries) store))) = 1"
    unfolding c by (rule recordsOf_one)
  have "snd (consume (msg # deliveries) store) = snd (processMessage msg store)
      \<and> fst (consume (msg # deliveries) store) = replicate (Suc (length deliveries)) Acked"
    if "\<forall>m \<in> set deliveries. bears t m"
    using consume_redeliveries [OF that t1] first c a by simp
  with one d first show ?thesis by simp
qed

text \<open>Scenario E: \<open>TXN_1\<close> delivered three times to an empty store.\<close>

theorem C3_redelivery_witness:
  "length (recordsOf ''TXN_1'' (snd (consume [sampleDelivery, sampleDelivery, sampleDelivery] []))) = 1
   \<and> fst (consume [sampleDelivery, sampleDelivery, sampleDelivery] []) = [Acked, Acked, Acked]
   \<and> bears ''TXN_1'' sampleDelivery"
proof -
  have b: "bears ''TXN_1'' sampleDelivery"
    by (simp add: bears_def sampleDelivery_def sampleRaw_def validateTransactionMessage_def isNonEmptyString_def)
  have r: "\<forall>m \<in> set [sampleDelivery, sampleDelivery]. bears ''TXN_1'' m" using b by simp
  have d: "distinct (map txh_transactionId [])" by simp
  from C3_redelivery_yields_one_audit_record [OF d b, of "[sampleDelivery, sampleDelivery]"] r
  have "length (recordsOf ''TXN_1'' (snd (consume [sampleDelivery, sampleDelivery, sampleDelivery] []))) = 1"
    and "fst (consume [sampleDelivery, sampleDelivery, sampleDelivery] []) = replicate (Suc (length [sampleDelivery, sampleDelivery])) Acked"
    by blast+
  with b show ?thesis by (simp del: consume.simps)
qed

section \<open>Order service: the paths of createOrder\<close>

lemmas client_defs = validateCustomer_def validateProduct_def updateProductStock_def paymentClient_def
  clientPaymentData_def createServiceResponse_def createApiResponse_def respond_def statusCodeOr_def
  resolves_def isNull_def body_success_def body_data_def body_message_def

lemmas order_defs = createOrder_def validateRequiredFields_def missingString_def missingNumber_def isValid_def
  requiredError_def saveNew_def saveExisting_def newOrderModel_def
  preSave_def validateOrder_def orderResponse_def internalError_def trim_def isSpace_def

lemmas sample_defs = sampleEnv_def sampleRequest_def sampleCustomers_def sampleProducts_def stockUpdated_def
  stockRefused_def paymentDeclines_def paymentApproves_def

lemma intake_valid:
  "isValid (validateRequiredFields req) \<longleftrightarrow>
     \<not> missingString (req_customerId req) \<and> \<not> missingString (req_productId req) \<and> \<not> missingNumber (req_amount req)"
  by (simp add: isValid_def validateRequiredFields_def)

text \<open>
  A request that fails the intake checks is answered with 400 before any call and any
  write: an identifier absent, empty or blank; an amount absent, zero, NaN, negative or
  \<open>-Infinity\<close>.
\<close>

lemma createOrder_intake_rejects:
  assumes "missingString (req_customerId req) \<or> missingString (req_productId req) \<or> missingNumber (req_amount req)
           \<or> (\<exists>amt. req_amount req = Some amt \<and> num_le amt 0)"
  shows "http_status (fst (fst (createOrder env post req st))) = 400
       \<and> \<not> api_success (http_body (fst (fst (createOrder env post req st))))
       \<and> snd (fst (createOrder env post req st)) = []
       \<and> snd (createOrder env post req st) = st"
proof (cases "isValid (validateRequiredFields req)")
  case False
  then show ?thesis by (simp add: createOrder_def Let_def respond_def createApiResponse_def)
next
  case True
  with assms obtain cid pid amt where "req_customerId req = Some cid" "req_productId req = Some pid"
    "req_amount req = Some amt" "num_le amt 0"
    by (auto simp: intake_valid missingString_def missingNumber_def split: option.splits)
  with True show ?thesis by (simp add: createOrder_def Let_def respond_def createApiResponse_def)
qed

lemma saveNew_Some:
  assumes "saveNew env doc orders = Some (d, os)"
  shows "os = orders @ [d] \<and> ord_orderId d \<notin> ord_orderId ` set orders \<and> d = preSave env doc \<and> validateOrder doc"
  using assms by (auto simp: saveNew_def Let_def split: if_splits)

lemma saveExisting_fresh:
  assumes "ord_orderId d \<notin> ord_orderId ` set orders" and "ord_orderId d' = ord_orderId d"
  shows "saveExisting now d' (orders @ [d]) = (d'\<lparr>ord_updatedAt := now\<rparr>, orders @ [d'\<lparr>ord_updatedAt := now\<rparr>])"
proof -
  have "map (\<lambda>x. if ord_orderId x = ord_orderId d then e else x) orders = orders" for e
    using assms(1) by (induction orders) auto
  then show ?thesis using assms(2) by (simp add: saveExisting_def Let_def)
qed

lemma savedOrder_pending:
  assumes "saveNew env (newOrderModel env req cid pid amt) orders = Some (savedOrder, orders1)"
  shows "ord_orderStatus savedOrder = PENDING \<and> ord_customerId savedOrder = cid \<and> ord_productId savedOrder = pid
     \<and> ord_amount savedOrder = amt"
  using saveNew_Some [OF assms] by (simp add: preSave_def newOrderModel_def)

text \<open>
  The saga after the order was stored in \<open>pending\<close>: the charge, then the cancellation, or
  the confirmation followed by the stock decrement.
\<close>

lemma createOrder_saga:
  assumes "isValid (validateRequiredFields req)"
    and "req_customerId req = Some cid" "req_productId req = Some pid" "req_amount req = Some amt"
    and "\<not> num_le amt 0"
    and "sr_success (validateCustomer (env_getCustomer env) cid)"
    and "sr_success (validateProduct (env_getProduct env) pid 1)"
    and "saveNew env (newOrderModel env req cid pid amt) orders = Some (savedOrder, orders1)"
    and "paymentClient post cid (ord_orderId savedOrder) pid amt ps = (pr, ps1)"
  shows "createOrder env post req (orders, ps) =
    (if \<not> sr_success pr then
       ((respond (statusCodeOr pr 400)
              (createApiResponse False None (Some ''Payment processing failed'') (sr_error pr)),
            [CustomerLookup cid, ProductLookup pid 1, OrderSave savedOrder,
             PaymentCharge (clientPaymentData cid (ord_orderId savedOrder) pid amt),
             OrderSave (savedOrder\<lparr>ord_orderStatus := CANCELLED, ord_updatedAt := env_updatedAt env\<rparr>)]),
        (orders @ [savedOrder\<lparr>ord_orderStatus := CANCELLED, ord_updatedAt := env_updatedAt env\<rparr>], ps1))
     else
       ((respond 201 (createApiResponse True
              (Some (orderResponse (savedOrder\<lparr>ord_orderStatus := CONFIRMED, ord_updatedAt := env_updatedAt env\<rparr>)))
              (Some ''Order created and payment processed successfully'') None),
            [CustomerLookup cid, ProductLookup pid 1, OrderSave savedOrder,
             PaymentCharge (clientPaymentData cid (ord_orderId savedOrder) pid amt),
             OrderSave (savedOrder\<lparr>ord_orderStatus := CONFIRMED, ord_updatedAt := env_updatedAt env\<rparr>),
             StockDecrement pid 1] @
              (if \<not> sr_success (updateProductStock (env_patchStock env) pid 1)
               then [LogWarn (''Failed to update product stock for order: '' @ ord_orderId savedOrder)]
               else [])),
        (orders @ [savedOrder\<lparr>ord_orderStatus := CONFIRMED, ord_updatedAt := env_updatedAt env\<rparr>], ps1)))"
proof -
  from saveNew_Some [OF assms(8)] have o1: "orders1 = orders @ [savedOrder]"
    and fresh: "ord_orderId savedOrder \<notin> ord_orderId ` set orders" by blast+
  have se: "saveExisting now (savedOrder\<lparr>ord_orderStatus := s\<rparr>) orders1 =
      (savedOrder\<lparr>ord_orderStatus := s, ord_updatedAt := now\<rparr>, orders @ [savedOrder\<lparr>ord_orderStatus := s, ord_updatedAt := now\<rparr>])" for now s
    unfolding o1 using saveExisting_fresh [OF fresh, of "savedOrder\<lparr>ord_orderStatus := s\<rparr>" now] by simp
  show ?thesis using assms by (simp add: createOrder_def Let_def se)
qed

text \<open>Every request is rejected without a write, or runs the saga above.\<close>

lemma createOrder_cases:
  obtains (rejected) "snd (createOrder env post req (orders, ps)) = (orders, ps)"
      and "orderSaves (snd (fst (createOrder env post req (orders, ps)))) = []"
    | (saga) cid pid amt savedOrder orders1 pr ps1 where
      "isValid (validateRequiredFields req)"
      "req_customerId req = Some cid" "req_productId req = Some pid" "req_amount req = Some amt"
      "\<not> num_le amt 0"
      "sr_success (validateCustomer (env_getCustomer env) cid)"
      "sr_success (validateProduct (env_getProduct env) pid 1)"
      "saveNew env (newOrderModel env req cid pid amt) orders = Some (savedOrder, orders1)"
      "paymentClient post cid (ord_orderId savedOrder) pid amt ps = (pr, ps1)"
proof (cases "isValid (validateRequiredFields req)")
  case False
  then show ?thesis by (intro rejected) (simp_all add: createOrder_def Let_def)
next
  case valid: True
  then obtain cid pid amt where f: "req_customerId req = Some cid" "req_productId req = Some pid"
    "req_amount req = Some amt"
    by (auto simp: intake_valid missingString_def missingNumber_def split: option.splits)
  show ?thesis
  proof (cases "\<not> num_le amt 0 \<and> sr_success (validateCustomer (env_getCustomer env) cid)
      \<and> sr_success (validateProduct (env_getProduct env) pid 1)")
    case False
    with valid f show ?thesis by (intro rejected) (auto simp: createOrder_def Let_def)
  next
    case ok: True
    show ?thesis
    proof (cases "saveNew env (newOrderModel env req cid pid amt) orders")
      case None
      with valid f ok show ?thesis by (intro rejected) (simp_all add: createOrder_def Let_def)
    next
      case (Some a)
      then obtain savedOrder orders1 where s: "saveNew env (newOrderModel env req cid pid amt) orders = Some (savedOrder, orders1)"
        by (cases a) simp
      obtain pr ps1 where "paymentClient post cid (ord_orderId savedOrder) pid amt ps = (pr, ps1)"
        by (cases "paymentClient post cid (ord_orderId savedOrder) pid amt ps")
      with valid f ok s show ?thesis by (intro saga) simp_all
    qed
  qed
qed

section \<open>Order service: the claims about createOrder\<close>



text \<open>
  Claim C4. When the payment succeeded and the order was stored as \<open>confirmed\<close>, a
  failing stock decrement changes nothing of the outcome: the stored order stays
  \<open>confirmed\<close>, the response is 201 with \<open>success\<close> true, the order projection (the
  stored order's identifiers, amount, status \<open>confirmed\<close> and timestamps) and no error,
  and the failure only leaves a warning in the log.
\<close>

theorem C4_stock_failure_keeps_order_confirmed:
  assumes "isValid (validateRequiredFields req)"
    and "req_customerId req = Some cid" "req_productId req = Some pid" "req_amount req = Some amt"
    and "\<not> num_le amt 0"
    and "sr_success (validateCustomer (env_getCustomer env) cid)"
    and "sr_success (validateProduct (env_getProduct env) pid 1)"
    and "saveNew env (newOrderModel env req cid pid amt) orders = Some (savedOrder, orders1)"
    and "paymentClient post cid (ord_orderId savedOrder) pid amt ps = (paymentResult, ps1)"
    and "sr_success paymentResult"
    and "\<not> sr_success (updateProductStock (env_patchStock env) pid 1)"
  shows "fst (snd (createOrder env post req (orders, ps))) =
         orders @ [savedOrder\<lparr>ord_orderStatus := CONFIRMED, ord_updatedAt := env_updatedAt env\<rparr>]
    \<and> fst (fst (createOrder env post req (orders, ps))) =
         respond 201 (createApiResponse True
           (Some (orderResponse (savedOrder\<lparr>ord_orderStatus := CONFIRMED, ord_updatedAt := env_updatedAt env\<rparr>)))
           (Some ''Order created and payment processed successfully'') None)
    \<and> or_orderStatus (orderResponse (savedOrder\<lparr>ord_orderStatus := CONFIRMED, ord_updatedAt := env_updatedAt env\<rparr>))
         = CONFIRMED
    \<and> api_data (http_body (fst (fst (createOrder env post req (orders, ps))))) =
         Some \<lparr>or_customerId = cid, or_orderId = ord_orderId savedOrder, or_productId = pid,
               or_orderStatus = CONFIRMED, or_amount = amt, or_paymentStatus = None,
               or_orderDate = ord_createdAt savedOrder, or_createdAt = ord_createdAt savedOrder,
               or_updatedAt = env_updatedAt env\<rparr>
    \<and> http_status (fst (fst (createOrder env post req (orders, ps)))) = 201
    \<and> api_success (http_body (fst (fst (createOrder env post req (orders, ps)))))
    \<and> api_error (http_body (fst (fst (createOrder env post req (orders, ps))))) = None
    \<and> snd (fst (createOrder env post req (orders, ps))) =
         [CustomerLookup cid, ProductLookup pid 1, OrderSave savedOrder,
          PaymentCharge (clientPaymentData cid (ord_orderId savedOrder) pid amt),
          OrderSave (savedOrder\<lparr>ord_orderStatus := CONFIRMED, ord_updatedAt := env_updatedAt env\<rparr>),
          StockDecrement pid 1,
          LogWarn (''Failed to update product stock for order: '' @ ord_orderId savedOrder)]"
  using createOrder_saga [OF assms(1-9)] assms(10,11) savedOrder_pending [OF assms(8)]
  by (simp add: orderResponse_def respond_def createApiResponse_def)

text \<open>Scenario A's request, the payment approved, the product service refusing the decrement.\<close>

theorem C4_stock_failure_witness:
  "http_status (fst (fst (createOrder (sampleEnv\<lparr>env_patchStock := stockRefused\<rparr>) paymentApproves sampleRequest ([], ())))) = 201
   \<and> api_success (http_body (fst (fst (createOrder (sampleEnv\<lparr>env_patchStock := stockRefused\<rparr>) paymentApproves sampleRequest ([], ())))))
   \<and> api_error (http_body (fst (fst (createOrder (sampleEnv\<lparr>env_patchStock := stockRefused\<rparr>) paymentApproves sampleRequest ([], ()))))) = None
   \<and> map ord_orderStatus (fst (snd (createOrder (sampleEnv\<lparr>env_patchStock := stockRefused\<rparr>) paymentApproves sampleRequest ([], ()))))
       = [CONFIRMED]
   \<and> \<not> sr_success (updateProductStock stockRefused ''PROD_1'' 1)"
proof -
  define env where "env = sampleEnv\<lparr>env_patchStock := stockRefused\<rparr>"
  define savedOrder where "savedOrder = preSave env (newOrderModel env sampleRequest ''CUST_1'' ''PROD_1'' (Fin 50000))"
  define paymentResult :: "PaymentResponse ServiceResponse"
    where "paymentResult = fst (paymentClient paymentApproves ''CUST_1'' (ord_orderId savedOrder) ''PROD_1'' (Fin 50000) ())"
  have 1: "isValid (validateRequiredFields sampleRequest)" by (simp add: order_defs sample_defs)
  have 2: "req_customerId sampleRequest = Some ''CUST_1''" "req_productId sampleRequest = Some ''PROD_1''"
    "req_amount sampleRequest = Some (Fin 50000)" by (simp_all add: sample_defs)
  have 3: "\<not> num_le (Fin 50000) 0" by simp
  have 4: "sr_success (validateCustomer (env_getCustomer env) ''CUST_1'')" by (simp add: env_def client_defs sample_defs)
  have 5: "sr_success (validateProduct (env_getProduct env) ''PROD_1'' 1)" by (simp add: env_def client_defs sample_defs)
  have 6: "saveNew env (newOrderModel env sampleRequest ''CUST_1'' ''PROD_1'' (Fin 50000)) [] = Some (savedOrder, [savedOrder])"
    by (simp add: savedOrder_def env_def saveNew_def validateOrder_def newOrderModel_def sample_defs Let_def)
  have 7: "paymentClient paymentApproves ''CUST_1'' (ord_orderId savedOrder) ''PROD_1'' (Fin 50000) () = (paymentResult, ())"
    by (simp add: paymentResult_def client_defs sample_defs)
  have 8: "sr_success paymentResult" by (simp add: paymentResult_def client_defs sample_defs)
  have 9: "\<not> sr_success (updateProductStock (env_patchStock env) ''PROD_1'' 1)"
    by (simp add: env_def client_defs sample_defs)
  from C4_stock_failure_keeps_order_confirmed [OF 1 2 3 4 5 6 7 8 9] 9 show ?thesis
    by (simp add: env_def client_defs)
qed

lemma validateCustomer_status:
  "statusCodeOr (validateCustomer get cid) 400 =
     (case get cid of
        Replied s b \<Rightarrow>
          if resolves s
          then (if isNull b then 500 else if body_success b \<and> body_data b \<noteq> None then 200 else 404)
          else if s = 0 then 400 else s
      | ConnRefused \<Rightarrow> 503 | NoResponse \<Rightarrow> 500)"
  by (cases "get cid") (auto simp: validateCustomer_def createServiceResponse_def statusCodeOr_def)

lemma validateCustomer_success:
  "sr_success (validateCustomer get cid) \<longleftrightarrow>
     (case get cid of Replied s b \<Rightarrow> resolves s \<and> \<not> isNull b \<and> body_success b \<and> body_data b \<noteq> None
      | _ \<Rightarrow> False)"
  by (cases "get cid") (auto simp: validateCustomer_def createServiceResponse_def)

lemma validateProduct_status:
  "statusCodeOr (validateProduct get pid q) 400 =
     (case get pid of
        Replied s b \<Rightarrow>
          if resolves s then
            (if isNull b then 500
             else if body_success b \<and> body_data b \<noteq> None
             then (if sr_success (validateProduct get pid q) then 200 else 400) else 404)
          else if s = 0 then 400 else s
      | ConnRefused \<Rightarrow> 503 | NoResponse \<Rightarrow> 500)"
  by (cases "get pid")
     (auto simp: validateProduct_def createServiceResponse_def statusCodeOr_def split: option.splits)

text \<open>
  When the intake checks pass and the customer validation or the product validation
  fails, the request fails at that step with the status code the client reports for the
  collaborator, nothing is written and no payment is called: the order store and the
  payment side are unchanged. The status is 404 when the collaborator answers 2xx without
  the entity, the collaborator's own status when it answers with an error (404 for an
  absent customer), 503 when the connection is refused, and 500 when there is no
  response for another reason (a timeout) or a 2xx reply has a \<open>null\<close> body.
\<close>

lemma createOrder_failed_validation:
  assumes "isValid (validateRequiredFields req)"
    and "req_customerId req = Some cid" "req_productId req = Some pid" "req_amount req = Some amt"
    and "\<not> num_le amt 0"
    and "\<not> sr_success (validateCustomer (env_getCustomer env) cid)
         \<or> \<not> sr_success (validateProduct (env_getProduct env) pid 1)"
  shows "snd (createOrder env post req st) = st
    \<and> \<not> api_success (http_body (fst (fst (createOrder env post req st))))
    \<and> (if \<not> sr_success (validateCustomer (env_getCustomer env) cid)
        then http_status (fst (fst (createOrder env post req st)))
               = statusCodeOr (validateCustomer (env_getCustomer env) cid) 400
           \<and> snd (fst (createOrder env post req st)) = [CustomerLookup cid]
           \<and> (case env_getCustomer env cid of
                 Replied s b \<Rightarrow> http_status (fst (fst (createOrder env post req st)))
                                  = (if resolves s then (if isNull b then 500 else 404)
                                     else if s = 0 then 400 else s)
               | ConnRefused \<Rightarrow> http_status (fst (fst (createOrder env post req st))) = 503
               | NoResponse \<Rightarrow> http_status (fst (fst (createOrder env post req st))) = 500)
        else http_status (fst (fst (createOrder env post req st)))
               = statusCodeOr (validateProduct (env_getProduct env) pid 1) 400
           \<and> snd (fst (createOrder env post req st)) = [CustomerLookup cid, ProductLookup pid 1]
           \<and> (case env_getProduct env pid of
                 Replied s b \<Rightarrow> http_status (fst (fst (createOrder env post req st)))
                                  = (if resolves s
                                     then (if isNull b then 500
                                           else if body_success b \<and> body_data b \<noteq> None then 400 else 404)
                                     else if s = 0 then 400 else s)
               | ConnRefused \<Rightarrow> http_status (fst (fst (createOrder env post req st))) = 503
               | NoResponse \<Rightarrow> http_status (fst (fst (createOrder env post req st))) = 500))"
proof (cases "sr_success (validateCustomer (env_getCustomer env) cid)")
  case False
  with assms(1-5) have r: "createOrder env post req st =
      ((respond (statusCodeOr (validateCustomer (env_getCustomer env) cid) 400)
          (createApiResponse False None (Some ''Customer validation failed'')
             (sr_error (validateCustomer (env_getCustomer env) cid))), [CustomerLookup cid]), st)"
    by (simp add: createOrder_def Let_def)
  from False r show ?thesis
    by (cases "env_getCustomer env cid")
       (auto simp: respond_def createApiResponse_def validateCustomer_status validateCustomer_success)
next
  case True
  with assms(6) have pf: "\<not> sr_success (validateProduct (env_getProduct env) pid 1)" by simp
  with True assms(1-5) have r: "createOrder env post req st =
      ((respond (statusCodeOr (validateProduct (env_getProduct env) pid 1) 400)
          (createApiResponse False None (Some ''Product validation failed'')
             (sr_error (validateProduct (env_getProduct env) pid 1))), [CustomerLookup cid, ProductLookup pid 1]), st)"
    by (simp add: createOrder_def Let_def)
  from True pf r show ?thesis
    by (cases "env_getProduct env pid")
       (auto simp: respond_def createApiResponse_def validateProduct_status)
qed

text \<open>Scenario B: an unknown customer, answered with 404, against a store holding nothing.\<close>

lemma unknown_customer_creates_no_order:
  "http_status (fst (fst (createOrder sampleEnv paymentApproves (sampleRequest\<lparr>req_customerId := Some ''INVALID''\<rparr>) ([], ())))) = 404
   \<and> snd (createOrder sampleEnv paymentApproves (sampleRequest\<lparr>req_customerId := Some ''INVALID''\<rparr>) ([], ())) = ([], ())
   \<and> snd (fst (createOrder sampleEnv paymentApproves (sampleRequest\<lparr>req_customerId := Some ''INVALID''\<rparr>) ([], ())))
        = [CustomerLookup ''INVALID'']"
  by (simp add: order_defs client_defs sample_defs Let_def)

text \<open>
  Claim C5 at a collaborator that does not answer within the timeout. The customer
  service is unreachable in the specification's sense (connection refused or timeout),
  and the claim gives 503 for it; the request is answered with 500
  \<open>Internal server error\<close>, as it is when the product service times out, because
  \<open>validateCustomer\<close> and \<open>validateProduct\<close> answer 503 only for \<open>ECONNREFUSED\<close>. No
  order is created in either case, and a refused connection is answered with 503. The
  sibling client \<open>updateProductStock\<close> answers 503 for the same timeout.
\<close>

theorem C5_timeout_answered_with_500:
  "http_status (fst (fst (createOrder customerTimesOut paymentApproves sampleRequest ([], ())))) = 500
   \<and> api_message (http_body (fst (fst (createOrder customerTimesOut paymentApproves sampleRequest ([], ())))))
        = Some ''Customer validation failed''
   \<and> api_error (http_body (fst (fst (createOrder customerTimesOut paymentApproves sampleRequest ([], ())))))
        = Some ''Internal server error''
   \<and> snd (fst (createOrder customerTimesOut paymentApproves sampleRequest ([], ()))) = [CustomerLookup ''CUST_1'']
   \<and> snd (createOrder customerTimesOut paymentApproves sampleRequest ([], ())) = ([], ())
   \<and> http_status (fst (fst (createOrder productTimesOut paymentApproves sampleRequest ([], ())))) = 500
   \<and> snd (fst (createOrder productTimesOut paymentApproves sampleRequest ([], ())))
        = [CustomerLookup ''CUST_1'', ProductLookup ''PROD_1'' 1]
   \<and> snd (createOrder productTimesOut paymentApproves sampleRequest ([], ())) = ([], ())
   \<and> http_status (fst (fst (createOrder customerRefuses paymentApproves sampleRequest ([], ())))) = 503
   \<and> sr_statusCode (updateProductStock (\<lambda>productId quantity. NoResponse) ''PROD_1'' 1) = Some 503"
  by (simp add: order_defs client_defs sample_defs customerTimesOut_def productTimesOut_def
      customerRefuses_def Let_def)

text \<open>
  Claim C10. When the payment fails and the compensation runs, the order store is
  written twice: the \<open>pending\<close> order, then the same order with only \<open>orderStatus\<close>
  (now \<open>cancelled\<close>) and the update timestamp changed. The stored order keeps the
  \<open>orderId\<close>, \<open>customerId\<close>, \<open>productId\<close>, \<open>amount\<close> and \<open>shippingAddress\<close> (and the
  creation timestamp) written at creation, and the orders stored before are untouched.
\<close>

theorem C10_compensation_changes_only_status:
  assumes "isValid (validateRequiredFields req)"
    and "req_customerId req = Some cid" "req_productId req = Some pid" "req_amount req = Some amt"
    and "\<not> num_le amt 0"
    and "sr_success (validateCustomer (env_getCustomer env) cid)"
    and "sr_success (validateProduct (env_getProduct env) pid 1)"
    and "saveNew env (newOrderModel env req cid pid amt) orders = Some (pending, orders1)"
    and "paymentClient post cid (ord_orderId pending) pid amt ps = (paymentResult, ps1)"
    and "\<not> sr_success paymentResult"
  shows "\<exists>cancelled.
      fst (snd (createOrder env post req (orders, ps))) = orders @ [cancelled]
    \<and> orderSaves (snd (fst (createOrder env post req (orders, ps)))) = [pending, cancelled]
    \<and> ord_orderStatus pending = PENDING \<and> ord_orderStatus cancelled = CANCELLED
    \<and> cancelled = pending\<lparr>ord_orderStatus := CANCELLED, ord_updatedAt := ord_updatedAt cancelled\<rparr>
    \<and> ord_orderId cancelled = ord_orderId pending
    \<and> ord_customerId cancelled = ord_customerId pending \<and> ord_customerId pending = cid
    \<and> ord_productId cancelled = ord_productId pending \<and> ord_productId pending = pid
    \<and> ord_amount cancelled = ord_amount pending \<and> ord_amount pending = amt
    \<and> ord_shippingAddress cancelled = ord_shippingAddress pending
    \<and> ord_createdAt cancelled = ord_createdAt pending"
proof -
  let ?c = "pending\<lparr>ord_orderStatus := CANCELLED, ord_updatedAt := env_updatedAt env\<rparr>"
  from createOrder_saga [OF assms(1-9)] assms(10)
  have "fst (snd (createOrder env post req (orders, ps))) = orders @ [?c]"
    and "orderSaves (snd (fst (createOrder env post req (orders, ps)))) = [pending, ?c]"
    by simp_all
  moreover from savedOrder_pending [OF assms(8)]
  have "ord_orderStatus pending = PENDING" "ord_customerId pending = cid" "ord_productId pending = pid"
    "ord_amount pending = amt" by simp_all
  ultimately show ?thesis by (intro exI [of _ ?c]) simp
qed

text \<open>Scenario A's request with a shipping address, against a payment service that declines.\<close>

theorem C10_compensation_witness:
  "map ord_orderStatus (orderSaves (snd (fst (createOrder sampleEnv paymentDeclines
       (sampleRequest\<lparr>req_shippingAddress := Some \<lparr>street = Some '' 1 Broad St '', city = Some ''Lagos'', state = None,
          zipCode = None, country = Some ''NG''\<rparr>\<rparr>) ([], ()))))) = [PENDING, CANCELLED]
   \<and> map ord_shippingAddress (fst (snd (createOrder sampleEnv paymentDeclines
       (sampleRequest\<lparr>req_shippingAddress := Some \<lparr>street = Some '' 1 Broad St '', city = Some ''Lagos'', state = None,
          zipCode = None, country = Some ''NG''\<rparr>\<rparr>) ([], ()))))
       = [Some \<lparr>street = Some ''1 Broad St'', city = Some ''Lagos'', state = None, zipCode = None, country = Some ''NG''\<rparr>]"
proof -
  define req where "req = sampleRequest\<lparr>req_shippingAddress := Some \<lparr>street = Some '' 1 Broad St '', city = Some ''Lagos'',
     state = None, zipCode = None, country = Some ''NG''\<rparr>\<rparr>"
  define pending where "pending = preSave sampleEnv (newOrderModel sampleEnv req ''CUST_1'' ''PROD_1'' (Fin 50000))"
  define paymentResult :: "PaymentResponse ServiceResponse"
    where "paymentResult = createServiceResponse False None (Some ''Payment processing failed'') (Some 400)"
  have 1: "isValid (validateRequiredFields req)" by (simp add: req_def order_defs sample_defs)
  have 2: "req_customerId req = Some ''CUST_1''" "req_productId req = Some ''PROD_1''"
    "req_amount req = Some (Fin 50000)" by (simp_all add: req_def sample_defs)
  have 3: "\<not> num_le (Fin 50000) 0" by simp
  have 4: "sr_success (validateCustomer (env_getCustomer sampleEnv) ''CUST_1'')" by (simp add: client_defs sample_defs)
  have 5: "sr_success (validateProduct (env_getProduct sampleEnv) ''PROD_1'' 1)" by (simp add: client_defs sample_defs)
  have 6: "saveNew sampleEnv (newOrderModel sampleEnv req ''CUST_1'' ''PROD_1'' (Fin 50000)) [] = Some (pending, [pending])"
    by (simp add: pending_def req_def saveNew_def validateOrder_def newOrderModel_def sample_defs Let_def
        addressValid_def maxlength_def trimAddress_def trim_def isSpace_def)
  have 7: "paymentClient paymentDeclines ''CUST_1'' (ord_orderId pending) ''PROD_1'' (Fin 50000) () = (paymentResult, ())"
    by (simp add: paymentResult_def client_defs sample_defs)
  have 8: "\<not> sr_success paymentResult" by (simp add: paymentResult_def createServiceResponse_def)
  from C10_compensation_changes_only_status [OF 1 2 3 4 5 6 7 8]
  obtain cancelled where c: "fst (snd (createOrder sampleEnv paymentDeclines req ([], ()))) = [] @ [cancelled]"
    "orderSaves (snd (fst (createOrder sampleEnv paymentDeclines req ([], ())))) = [pending, cancelled]"
    "ord_orderStatus pending = PENDING" "ord_orderStatus cancelled = CANCELLED"
    "ord_shippingAddress cancelled = ord_shippingAddress pending"
    by blast
  have "ord_shippingAddress pending = Some \<lparr>street = Some ''1 Broad St'', city = Some ''Lagos'', state = None,
     zipCode = None, country = Some ''NG''\<rparr>"
    by (simp add: pending_def req_def preSave_def newOrderModel_def trimAddress_def trim_def isSpace_def)
  with c show ?thesis unfolding req_def [symmetric] by simp
qed

section \<open>Payment service: the charge\<close>

lemmas payment_defs = processPayment_def savePayment_def updatePayment_def newPaymentModel_def validatePayment_def
  simulatePaymentProcessing_def publishTransaction_def paymentInternalError_def paymentRoute_def
  validateCreatePayment_def postPayment_def

lemma savePayment_Some:
  assumes "savePayment penv doc payments = Some (d, ps1)"
  shows "ps1 = payments @ [d] \<and> pay_paymentId d \<notin> pay_paymentId ` set payments
       \<and> pay_status d = pay_status doc \<and> pay_orderId d = pay_orderId doc \<and> pay_transactionId d = pay_transactionId doc"
  using assms by (auto simp: savePayment_def Let_def split: if_splits)

lemma updatePayment_fresh:
  assumes "updatePayment d' (payments @ [d]) = Some ps2"
    and "pay_paymentId d \<notin> pay_paymentId ` set payments" and "pay_paymentId d' = pay_paymentId d"
  shows "ps2 = payments @ [d']"
proof -
  have "map (\<lambda>x. if pay_paymentId x = pay_paymentId d then e else x) payments = payments" for e
    using assms(2) by (induction payments) auto
  with assms(1,3) show ?thesis by (auto simp: updatePayment_def split: if_splits)
qed

text \<open>The four ways a charge ends.\<close>

lemma processPayment_cases:
  obtains (not_saved) "savePayment penv (newPaymentModel body) payments = None"
      "processPayment penv body payments = ((paymentInternalError, []), payments)"
  | (completed) saved tid where
      "savePayment penv (newPaymentModel body) payments = Some (saved, payments @ [saved])"
      "pay_status saved = PAY_PENDING" "pay_orderId saved = preq_orderId body"
      "simulatePaymentProcessing penv saved = SimSuccess tid"
      "processPayment penv body payments =
         ((respond 201 (createApiResponse True
              (Some \<lparr>presp_success = True, presp_paymentId = Some (pay_paymentId saved),
                     presp_transactionId = Some tid, presp_message = Some ''Payment processed successfully''\<rparr>)
              (Some ''Payment processed successfully'') None),
           [PaymentSave saved, GatewayAttempt saved,
            PaymentSave (saved\<lparr>pay_status := PAY_COMPLETED, pay_transactionId := Some tid\<rparr>),
            QueuePublish \<lparr>msg_customerId = pay_customerId saved, msg_orderId = pay_orderId saved,
                msg_productId = preq_productId body, msg_amount = pay_amount saved,
                msg_transactionId = tid, msg_timestamp = penv_timestamp penv\<rparr>
              (publishTransaction (penv_channel penv)
                 \<lparr>msg_customerId = pay_customerId saved, msg_orderId = pay_orderId saved,
                  msg_productId = preq_productId body, msg_amount = pay_amount saved,
                  msg_transactionId = tid, msg_timestamp = penv_timestamp penv\<rparr>)] @
           (if \<not> publishTransaction (penv_channel penv)
                 \<lparr>msg_customerId = pay_customerId saved, msg_orderId = pay_orderId saved,
                  msg_productId = preq_productId body, msg_amount = pay_amount saved,
                  msg_transactionId = tid, msg_timestamp = penv_timestamp penv\<rparr>
            then [PaymentLogWarn (''Failed to publish transaction message for payment: '' @ pay_paymentId saved)]
            else [])),
          payments @ [saved\<lparr>pay_status := PAY_COMPLETED, pay_transactionId := Some tid\<rparr>])"
  | (not_updated) saved where
      "savePayment penv (newPaymentModel body) payments = Some (saved, payments @ [saved])"
      "pay_status saved = PAY_PENDING"
      "processPayment penv body payments =
         ((paymentInternalError, [PaymentSave saved, GatewayAttempt saved]), payments @ [saved])"
  | (declined) saved err where
      "savePayment penv (newPaymentModel body) payments = Some (saved, payments @ [saved])"
      "pay_status saved = PAY_PENDING" "pay_orderId saved = preq_orderId body"
      "simulatePaymentProcessing penv saved = SimFailure err"
      "processPayment penv body payments =
         ((respond 400 (createApiResponse False None (Some ''Payment processing failed'') (Some err)),
           [PaymentSave saved, GatewayAttempt saved, PaymentSave (saved\<lparr>pay_status := PAY_FAILED\<rparr>)]),
          payments @ [saved\<lparr>pay_status := PAY_FAILED\<rparr>])"
proof (cases "savePayment penv (newPaymentModel body) payments")
  case None
  then show ?thesis by (intro not_saved) (simp_all add: processPayment_def)
next
  case (Some a)
  then obtain saved ps1 where s: "savePayment penv (newPaymentModel body) payments = Some (saved, ps1)"
    by (cases a) simp
  from savePayment_Some [OF s] have ps1: "ps1 = payments @ [saved]"
    and fresh: "pay_paymentId saved \<notin> pay_paymentId ` set payments"
    and st: "pay_status saved = PAY_PENDING" and oid: "pay_orderId saved = preq_orderId body"
    by (simp_all add: newPaymentModel_def)
  show ?thesis
  proof (cases "simulatePaymentProcessing penv saved")
    case (SimSuccess tid)
    show ?thesis
    proof (cases "updatePayment (saved\<lparr>pay_status := PAY_COMPLETED, pay_transactionId := Some tid\<rparr>) ps1")
      case None
      with s SimSuccess st ps1 show ?thesis
        by (intro not_updated [of saved]) (simp_all add: processPayment_def Let_def)
    next
      case (Some ps2)
      with updatePayment_fresh [OF _ fresh, of "saved\<lparr>pay_status := PAY_COMPLETED, pay_transactionId := Some tid\<rparr>" ps2] ps1
      have "ps2 = payments @ [saved\<lparr>pay_status := PAY_COMPLETED, pay_transactionId := Some tid\<rparr>]" by simp
      with s SimSuccess Some st oid ps1 show ?thesis
        by (intro completed [of saved tid]) (simp_all add: processPayment_def Let_def)
    qed
  next
    case (SimFailure err)
    show ?thesis
    proof (cases "updatePayment (saved\<lparr>pay_status := PAY_FAILED\<rparr>) ps1")
      case None
      with s SimFailure st ps1 show ?thesis
        by (intro not_updated [of saved]) (simp_all add: processPayment_def Let_def)
    next
      case (Some ps2)
      with updatePayment_fresh [OF _ fresh, of "saved\<lparr>pay_status := PAY_FAILED\<rparr>" ps2] ps1
      have "ps2 = payments @ [saved\<lparr>pay_status := PAY_FAILED\<rparr>]" by simp
      with s SimFailure Some st oid ps1 show ?thesis
        by (intro declined [of saved err]) (simp_all add: processPayment_def Let_def)
    qed
  qed
qed

text \<open>
  An approved charge: the payment is stored as \<open>completed\<close> with the transaction
  identifier, the message is handed to the queue and the charge is answered with 201,
  whatever the publish returns. The second save can only fail when another payment
  already holds the transaction identifier (the unique sparse index).
\<close>

lemma processPayment_approved:
  assumes "savePayment penv (newPaymentModel body) payments = Some (saved, ps1)"
    and "simulatePaymentProcessing penv saved = SimSuccess tid"
    and "Some tid \<notin> pay_transactionId ` set payments"
  shows "processPayment penv body payments =
     ((respond 201 (createApiResponse True
          (Some \<lparr>presp_success = True, presp_paymentId = Some (pay_paymentId saved),
                 presp_transactionId = Some tid, presp_message = Some ''Payment processed successfully''\<rparr>)
          (Some ''Payment processed successfully'') None),
       [PaymentSave saved, GatewayAttempt saved,
        PaymentSave (saved\<lparr>pay_status := PAY_COMPLETED, pay_transactionId := Some tid\<rparr>),
        QueuePublish \<lparr>msg_customerId = pay_customerId saved, msg_orderId = pay_orderId saved,
            msg_productId = preq_productId body, msg_amount = pay_amount saved,
            msg_transactionId = tid, msg_timestamp = penv_timestamp penv\<rparr>
          (publishTransaction (penv_channel penv)
             \<lparr>msg_customerId = pay_customerId saved, msg_orderId = pay_orderId saved,
              msg_productId = preq_productId body, msg_amount = pay_amount saved,
              msg_transactionId = tid, msg_timestamp = penv_timestamp penv\<rparr>)] @
       (if publishTransaction (penv_channel penv)
             \<lparr>msg_customerId = pay_customerId saved, msg_orderId = pay_orderId saved,
              msg_productId = preq_productId body, msg_amount = pay_amount saved,
              msg_transactionId = tid, msg_timestamp = penv_timestamp penv\<rparr>
        then []
        else [PaymentLogWarn (''Failed to publish transaction message for payment: '' @ pay_paymentId saved)])),
      payments @ [saved\<lparr>pay_status := PAY_COMPLETED, pay_transactionId := Some tid\<rparr>])"
proof -
  let ?completed = "saved\<lparr>pay_status := PAY_COMPLETED, pay_transactionId := Some tid\<rparr>"
  from savePayment_Some [OF assms(1)] have ps1: "ps1 = payments @ [saved]"
    and fresh: "pay_paymentId saved \<notin> pay_paymentId ` set payments" by blast+
  have keep: "map (\<lambda>x. if pay_paymentId x = pay_paymentId saved then e else x) payments = payments" for e
    using fresh by (induction payments) auto
  from assms(3) have "\<forall>p \<in> set payments. pay_transactionId p \<noteq> Some tid" by force
  then have "updatePayment ?completed (payments @ [saved]) = Some (payments @ [?completed])"
    by (simp add: updatePayment_def keep)
  with assms(1,2) ps1 show ?thesis by (simp add: processPayment_def Let_def)
qed

text \<open>
  Claim C7. For every charge:
  \<^item> the gateway outcome is attempted only after a payment in \<open>pending\<close> was saved, and
    whenever that first save succeeds the saved payment is \<open>pending\<close>, it is in the store,
    and the first two effects are this save and the attempt;
  \<^item> the queue publish is attempted only after the payment was saved as \<open>completed\<close>
    with its transaction identifier, and that payment is in the store the charge leaves;
  \<^item> on success of the gateway (and unless another payment already holds the transaction
    identifier) the payment is saved as \<open>completed\<close> with the identifier, then the publish
    is attempted with the transaction's message, and the charge is answered with 201,
    \<open>success\<close> true and the payment's identifiers, whether the publish succeeds or
    fails; a failed publish only adds a warning to the log.
\<close>

theorem C7_payment_saved_before_outcome_and_publish:
  "beforeAny isPendingSave isGatewayAttempt (snd (fst (processPayment penv body payments)))
   \<and> beforeAny isCompletedSave isPublish (snd (fst (processPayment penv body payments)))
   \<and> (\<forall>m published. QueuePublish m published \<in> set (snd (fst (processPayment penv body payments))) \<longrightarrow>
        (\<exists>p \<in> set (snd (processPayment penv body payments)).
            pay_status p = PAY_COMPLETED \<and> pay_transactionId p = Some (msg_transactionId m)
          \<and> pay_orderId p = msg_orderId m)
      \<and> http_status (fst (fst (processPayment penv body payments))) = 201
      \<and> api_success (http_body (fst (fst (processPayment penv body payments))))
      \<and> (\<not> published \<longrightarrow> (\<exists>w. PaymentLogWarn w \<in> set (snd (fst (processPayment penv body payments))))))
   \<and> (savePayment penv (newPaymentModel body) payments \<noteq> None \<longrightarrow>
        (\<exists>p. GatewayAttempt p \<in> set (snd (fst (processPayment penv body payments)))))
   \<and> (\<forall>saved ps1. savePayment penv (newPaymentModel body) payments = Some (saved, ps1) \<longrightarrow>
        pay_status saved = PAY_PENDING \<and> ps1 = payments @ [saved]
      \<and> take 2 (snd (fst (processPayment penv body payments))) = [PaymentSave saved, GatewayAttempt saved])
   \<and> (\<forall>saved ps1 tid.
        savePayment penv (newPaymentModel body) payments = Some (saved, ps1)
        \<and> simulatePaymentProcessing penv saved = SimSuccess tid
        \<and> Some tid \<notin> pay_transactionId ` set payments \<longrightarrow>
          snd (processPayment penv body payments)
            = payments @ [saved\<lparr>pay_status := PAY_COMPLETED, pay_transactionId := Some tid\<rparr>]
        \<and> snd (fst (processPayment penv body payments)) =
            [PaymentSave saved, GatewayAttempt saved,
             PaymentSave (saved\<lparr>pay_status := PAY_COMPLETED, pay_transactionId := Some tid\<rparr>),
             QueuePublish \<lparr>msg_customerId = pay_customerId saved, msg_orderId = pay_orderId saved,
                 msg_productId = preq_productId body, msg_amount = pay_amount saved,
                 msg_transactionId = tid, msg_timestamp = penv_timestamp penv\<rparr>
               (publishTransaction (penv_channel penv)
                  \<lparr>msg_customerId = pay_customerId saved, msg_orderId = pay_orderId saved,
                   msg_productId = preq_productId body, msg_amount = pay_amount saved,
                   msg_transactionId = tid, msg_timestamp = penv_timestamp penv\<rparr>)] @
            (if publishTransaction (penv_channel penv)
                  \<lparr>msg_customerId = pay_customerId saved, msg_orderId = pay_orderId saved,
                   msg_productId = preq_productId body, msg_amount = pay_amount saved,
                   msg_transactionId = tid, msg_timestamp = penv_timestamp penv\<rparr>
             then []
             else [PaymentLogWarn (''Failed to publish transaction message for payment: '' @ pay_paymentId saved)])
        \<and> fst (fst (processPayment penv body payments)) =
            respond 201 (createApiResponse True
              (Some \<lparr>presp_success = True, presp_paymentId = Some (pay_paymentId saved),
                     presp_transactionId = Some tid, presp_message = Some ''Payment processed successfully''\<rparr>)
              (Some ''Payment processed successfully'') None))"
proof -
  have order: "beforeAny isPendingSave isGatewayAttempt (snd (fst (processPayment penv body payments)))
   \<and> beforeAny isCompletedSave isPublish (snd (fst (processPayment penv body payments)))
   \<and> (\<forall>m published. QueuePublish m published \<in> set (snd (fst (processPayment penv body payments))) \<longrightarrow>
        (\<exists>p \<in> set (snd (processPayment penv body payments)).
            pay_status p = PAY_COMPLETED \<and> pay_transactionId p = Some (msg_transactionId m)
          \<and> pay_orderId p = msg_orderId m)
      \<and> http_status (fst (fst (processPayment penv body payments))) = 201
      \<and> api_success (http_body (fst (fst (processPayment penv body payments))))
      \<and> (\<not> published \<longrightarrow> (\<exists>w. PaymentLogWarn w \<in> set (snd (fst (processPayment penv body payments))))))
   \<and> (savePayment penv (newPaymentModel body) payments \<noteq> None \<longrightarrow>
        (\<exists>p. GatewayAttempt p \<in> set (snd (fst (processPayment penv body payments)))))"
  proof (cases rule: processPayment_cases [of penv body payments])
    case not_saved
    then show ?thesis by simp
  next
    case (completed saved tid)
    then show ?thesis by (simp add: respond_def createApiResponse_def)
  next
    case (not_updated saved)
    then show ?thesis by simp
  next
    case (declined saved err)
    then show ?thesis by simp
  qed
  have first: "pay_status saved = PAY_PENDING \<and> ps1 = payments @ [saved]
      \<and> take 2 (snd (fst (processPayment penv body payments))) = [PaymentSave saved, GatewayAttempt saved]"
    if s: "savePayment penv (newPaymentModel body) payments = Some (saved, ps1)" for saved ps1
  proof -
    from savePayment_Some [OF s] have "ps1 = payments @ [saved]" "pay_status saved = PAY_PENDING"
      by (simp_all add: newPaymentModel_def)
    then show ?thesis
      using s by (cases rule: processPayment_cases [of penv body payments]) auto
  qed
  have approved: "snd (processPayment penv body payments)
            = payments @ [saved\<lparr>pay_status := PAY_COMPLETED, pay_transactionId := Some tid\<rparr>]
        \<and> snd (fst (processPayment penv body payments)) =
            [PaymentSave saved, GatewayAttempt saved,
             PaymentSave (saved\<lparr>pay_status := PAY_COMPLETED, pay_transactionId := Some tid\<rparr>),
             QueuePublish \<lparr>msg_customerId = pay_customerId saved, msg_orderId = pay_orderId saved,
                 msg_productId = preq_productId body, msg_amount = pay_amount saved,
                 msg_transactionId = tid, msg_timestamp = penv_timestamp penv\<rparr>
               (publishTransaction (penv_channel penv)
                  \<lparr>msg_customerId = pay_customerId saved, msg_orderId = pay_orderId saved,
                   msg_productId = preq_productId body, msg_amount = pay_amount saved,
                   msg_transactionId = tid, msg_timestamp = penv_timestamp penv\<rparr>)] @
            (if publishTransaction (penv_channel penv)
                  \<lparr>msg_customerId = pay_customerId saved, msg_orderId = pay_orderId saved,
                   msg_productId = preq_productId body, msg_amount = pay_amount saved,
                   msg_transactionId = tid, msg_timestamp = penv_timestamp penv\<rparr>
             then []
             else [PaymentLogWarn (''Failed to publish transaction message for payment: '' @ pay_paymentId saved)])
        \<and> fst (fst (processPayment penv body payments)) =
            respond 201 (createApiResponse True
              (Some \<lparr>presp_success = True, presp_paymentId = Some (pay_paymentId saved),
                     presp_transactionId = Some tid, presp_message = Some ''Payment processed successfully''\<rparr>)
              (Some ''Payment processed successfully'') None)"
    if "savePayment penv (newPaymentModel body) payments = Some (saved, ps1)
        \<and> simulatePaymentProcessing penv saved = SimSuccess tid
        \<and> Some tid \<notin> pay_transactionId ` set payments" for saved ps1 tid
    using processPayment_approved [of penv body payments saved ps1 tid] that by simp
  from order first approved show ?thesis by blast
qed

text \<open>The publish fails for want of a channel; the charge is answered with 201 all the same.\<close>

theorem C7_payment_witness:
  "http_status (fst (fst (processPayment (samplePaymentEnv\<lparr>penv_channel := NoChannel\<rparr>) sampleCharge []))) = 201
   \<and> api_success (http_body (fst (fst (processPayment (samplePaymentEnv\<lparr>penv_channel := NoChannel\<rparr>) sampleCharge []))))
   \<and> map pay_status (snd (processPayment (samplePaymentEnv\<lparr>penv_channel := NoChannel\<rparr>) sampleCharge [])) = [PAY_COMPLETED]
   \<and> length (snd (fst (processPayment (samplePaymentEnv\<lparr>penv_channel := NoChannel\<rparr>) sampleCharge []))) = 5
   \<and> (\<exists>m. QueuePublish m False \<in> set (snd (fst (processPayment (samplePaymentEnv\<lparr>penv_channel := NoChannel\<rparr>) sampleCharge []))))
   \<and> (\<exists>w. PaymentLogWarn w \<in> set (snd (fst (processPayment (samplePaymentEnv\<lparr>penv_channel := NoChannel\<rparr>) sampleCharge []))))"
proof -
  define penv where "penv = samplePaymentEnv\<lparr>penv_channel := NoChannel\<rparr>"
  define saved where "saved = (newPaymentModel sampleCharge)\<lparr>pay_paymentId := generatePaymentId penv\<rparr>"
  define tid where "tid = ''TXN_'' @ showNat (penv_txnNow penv) @ ''_'' @ penv_generateId penv"
  have s: "savePayment penv (newPaymentModel sampleCharge) [] = Some (saved, [saved])"
    by (simp add: saved_def savePayment_def validatePayment_def newPaymentModel_def sampleCharge_def
        clientPaymentData_def Let_def)
  have g: "simulatePaymentProcessing penv saved = SimSuccess tid"
    by (simp add: tid_def penv_def simulatePaymentProcessing_def samplePaymentEnv_def Let_def)
  have f: "Some tid \<notin> pay_transactionId ` set []" by simp
  have p: "\<not> publishTransaction (penv_channel penv) m" for m
    by (simp add: penv_def publishTransaction_def)
  from C7_payment_saved_before_outcome_and_publish [of penv sampleCharge "[]"] s g f
  have "snd (processPayment penv sampleCharge [])
          = [] @ [saved\<lparr>pay_status := PAY_COMPLETED, pay_transactionId := Some tid\<rparr>]"
    and "snd (fst (processPayment penv sampleCharge [])) =
            [PaymentSave saved, GatewayAttempt saved,
             PaymentSave (saved\<lparr>pay_status := PAY_COMPLETED, pay_transactionId := Some tid\<rparr>),
             QueuePublish \<lparr>msg_customerId = pay_customerId saved, msg_orderId = pay_orderId saved,
                 msg_productId = preq_productId sampleCharge, msg_amount = pay_amount saved,
                 msg_transactionId = tid, msg_timestamp = penv_timestamp penv\<rparr>
               (publishTransaction (penv_channel penv)
                  \<lparr>msg_customerId = pay_customerId saved, msg_orderId = pay_orderId saved,
                   msg_productId = preq_productId sampleCharge, msg_amount = pay_amount saved,
                   msg_transactionId = tid, msg_timestamp = penv_timestamp penv\<rparr>)] @
            (if publishTransaction (penv_channel penv)
                  \<lparr>msg_customerId = pay_customerId saved, msg_orderId = pay_orderId saved,
                   msg_productId = preq_productId sampleCharge, msg_amount = pay_amount saved,
                   msg_transactionId = tid, msg_timestamp = penv_timestamp penv\<rparr>
             then []
             else [PaymentLogWarn (''Failed to publish transaction message for payment: '' @ pay_paymentId saved)])"
    and "fst (fst (processPayment penv sampleCharge [])) =
            respond 201 (createApiResponse True
              (Some \<lparr>presp_success = True, presp_paymentId = Some (pay_paymentId saved),
                     presp_transactionId = Some tid, presp_message = Some ''Payment processed successfully''\<rparr>)
              (Some ''Payment processed successfully'') None)"
    by blast+
  then show ?thesis
    unfolding penv_def [symmetric] by (simp add: p respond_def createApiResponse_def)
qed

section \<open>Confirmed orders are paid\<close>

lemma paymentRoute_keeps:
  "set payments \<subseteq> set (snd (paymentRoute penv body payments))"
proof (cases "validateCreatePayment body")
  case False
  then show ?thesis by (simp add: paymentRoute_def)
next
  case True
  then have "paymentRoute penv body payments = processPayment penv body payments"
    by (simp add: paymentRoute_def)
  then show ?thesis
    by (cases rule: processPayment_cases [of penv body payments]) auto
qed

text \<open>A reply that the order service's client takes for a success leaves a completed payment.\<close>

lemma paymentRoute_success:
  assumes "resolves (http_status (fst (fst (paymentRoute penv body payments))))"
    and "api_success (http_body (fst (fst (paymentRoute penv body payments))))"
  shows "\<exists>p \<in> set (snd (paymentRoute penv body payments)).
           pay_orderId p = preq_orderId body \<and> pay_status p = PAY_COMPLETED"
proof (cases "validateCreatePayment body")
  case False
  with assms show ?thesis by (simp add: paymentRoute_def respond_def resolves_def)
next
  case True
  then have r: "paymentRoute penv body payments = processPayment penv body payments"
    by (simp add: paymentRoute_def)
  show ?thesis
    using assms unfolding r
    by (cases rule: processPayment_cases [of penv body payments])
       (simp_all add: respond_def resolves_def createApiResponse_def paymentInternalError_def)
qed

lemma postPayment_keeps: "set payments \<subseteq> set (snd (postPayment net penv body payments))"
  using paymentRoute_keeps [of payments penv body]
  by (cases net) (simp_all add: postPayment_def split_beta)

lemma postPayment_success:
  assumes "postPayment net penv body payments = (Replied s b, payments')"
    and "resolves s" and "body_success b"
  shows "\<exists>p \<in> set payments'. pay_orderId p = preq_orderId body \<and> pay_status p = PAY_COMPLETED"
proof (cases net)
  case Delivered
  with assms have "s = http_status (fst (fst (paymentRoute penv body payments)))"
    and "b = JsonObject (http_body (fst (fst (paymentRoute penv body payments))))"
    and "payments' = snd (paymentRoute penv body payments)"
    by (auto simp: postPayment_def split_beta)
  with assms(2,3) paymentRoute_success [of penv body payments] show ?thesis
    by (simp add: body_success_def)
qed (use assms in \<open>simp_all add: postPayment_def\<close>)

lemma paymentClient_success:
  assumes "paymentClient post cid oid pid amt ps = (pr, ps1)" and "sr_success pr"
  shows "\<exists>s b. post (clientPaymentData cid oid pid amt) ps = (Replied s b, ps1) \<and> resolves s \<and> body_success b"
  using assms
  by (cases "post (clientPaymentData cid oid pid amt) ps"; cases "fst (post (clientPaymentData cid oid pid amt) ps)")
     (auto simp: paymentClient_def createServiceResponse_def split: if_splits)

lemma paymentClient_state:
  "snd (paymentClient post cid oid pid amt ps) = snd (post (clientPaymentData cid oid pid amt) ps)"
  by (simp add: paymentClient_def split_beta)

text \<open>One submission keeps the invariant.\<close>

lemma submitOrder_keeps_confirmedOrdersPaid:
  assumes "confirmedOrdersPaid st"
  shows "confirmedOrdersPaid (snd (submitOrder sub st))"
proof -
  obtain orders payments where st: "st = (orders, payments)" by (cases st)
  let ?post = "postPayment (sub_net sub) (sub_penv sub)"
  show ?thesis
  proof (cases rule: createOrder_cases [of "sub_env sub" ?post "sub_request sub" orders payments])
    case rejected
    with assms st show ?thesis by (simp add: submitOrder_def)
  next
    case (saga cid pid amt savedOrder orders1 pr ps1)
    from saga(9) have ps1: "ps1 = snd (?post (clientPaymentData cid (ord_orderId savedOrder) pid amt) payments)"
      using paymentClient_state [of ?post cid "ord_orderId savedOrder" pid amt payments] by simp
    then have keeps: "set payments \<subseteq> set ps1" by (simp add: postPayment_keeps)
    have old: "\<forall>ord \<in> set orders. ord_orderStatus ord = CONFIRMED \<longrightarrow>
        (\<exists>p \<in> set ps1. pay_orderId p = ord_orderId ord \<and> pay_status p = PAY_COMPLETED)"
      using assms keeps unfolding st confirmedOrdersPaid_def by auto
    show ?thesis
    proof (cases "sr_success pr")
      case False
      with createOrder_saga [OF saga] old st show ?thesis
        by (simp add: submitOrder_def confirmedOrdersPaid_def)
    next
      case True
      from paymentClient_success [OF saga(9) True] obtain s b
        where "?post (clientPaymentData cid (ord_orderId savedOrder) pid amt) payments = (Replied s b, ps1)"
          "resolves s" "body_success b" by blast
      from postPayment_success [OF this]
      have "\<exists>p \<in> set ps1. pay_orderId p = ord_orderId savedOrder \<and> pay_status p = PAY_COMPLETED"
        by (simp add: clientPaymentData_def)
      with createOrder_saga [OF saga] True old st show ?thesis
        by (simp add: submitOrder_def confirmedOrdersPaid_def)
    qed
  qed
qed

lemma submitOrders_keeps_confirmedOrdersPaid:
  "confirmedOrdersPaid st \<Longrightarrow> confirmedOrdersPaid (submitOrders subs st)"
  by (induction subs arbitrary: st) (simp_all add: submitOrder_keeps_confirmedOrdersPaid)

text \<open>
  Claim C2. In every state the order-processing flow reaches (any sequence of order
  submissions from the empty stores, whatever the collaborators, the network, the clock
  and the random draws do), each order whose status is \<open>confirmed\<close> has a payment with
  status \<open>completed\<close> for its \<open>orderId\<close>; and a submission keeps this in any state that
  has it.
\<close>

theorem C2_confirmed_order_has_completed_payment:
  "confirmedOrdersPaid (submitOrders subs ([], []))
   \<and> (confirmedOrdersPaid st \<longrightarrow> confirmedOrdersPaid (snd (submitOrder sub st)))"
proof -
  have "confirmedOrdersPaid ([], [])" by (simp add: confirmedOrdersPaid_def)
  then show ?thesis
    by (simp add: submitOrders_keeps_confirmedOrdersPaid submitOrder_keeps_confirmedOrdersPaid)
qed

lemmas system_defs = submitOrder_def sampleSubmission_def samplePaymentEnv_def atCeiling_def atCeilingDeclined_def
  aboveCeiling_def aboveCeilingDeclined_def infiniteAmount_def clientChosenId_def generateOrderId_def generatePaymentId_def

text \<open>Scenario A: the order is confirmed and its payment is completed.\<close>

theorem C2_confirmed_order_witness:
  "map ord_orderStatus (fst (submitOrders [sampleSubmission] ([], []))) = [CONFIRMED]
   \<and> (\<exists>p \<in> set (snd (submitOrders [sampleSubmission] ([], []))).
         pay_orderId p = generateOrderId sampleEnv \<and> pay_status p = PAY_COMPLETED)"
proof -
  have o: "fst (submitOrders [sampleSubmission] ([], [])) =
      [\<lparr>ord_orderId = generateOrderId sampleEnv, ord_customerId = ''CUST_1'', ord_productId = ''PROD_1'',
        ord_amount = Fin 50000, ord_orderStatus = CONFIRMED, ord_shippingAddress = None,
        ord_createdAt = 1757494119514, ord_updatedAt = 1757494121000\<rparr>]"
    by (simp add: system_defs order_defs client_defs payment_defs sample_defs Let_def)
  from C2_confirmed_order_has_completed_payment [of "[sampleSubmission]"]
  have "confirmedOrdersPaid (submitOrders [sampleSubmission] ([], []))" by blast
  with o show ?thesis unfolding confirmedOrdersPaid_def by simp
qed

section \<open>Amounts at and above the ceiling\<close>

lemma savedOrder_orderId:
  assumes "saveNew env (newOrderModel env req cid pid amt) orders = Some (savedOrder, orders1)"
  shows "ord_orderId savedOrder =
           (case req_orderId req of None \<Rightarrow> generateOrderId env
            | Some i \<Rightarrow> if i = [] then generateOrderId env else i)"
    and "ord_orderId savedOrder \<noteq> []"
  using saveNew_Some [OF assms]
  by (auto simp: preSave_def newOrderModel_def generateOrderId_def split: option.splits)

text \<open>
  A charge above the ceiling that passes the route's schema, when the gateway draw fails:
  the reason is the limit, and the payment is stored as \<open>failed\<close>.
\<close>

lemma paymentRoute_exceeds_limit:
  assumes "preq_customerId body \<noteq> []" "preq_orderId body \<noteq> []" "preq_productId body \<noteq> []"
    and "preq_amount body = Fin a" "100000000 < a" "a \<le> 9007199254740991"
    and "preq_paymentMethod body = Some ''bank_transfer''"
    and "penv_outcome penv \<le> 0.05"
    and "generatePaymentId penv \<notin> pay_paymentId ` set payments"
  shows "paymentRoute penv body payments =
    ((respond 400 (createApiResponse False None (Some ''Payment processing failed'')
         (Some ''Transaction amount exceeds limit'')),
      [PaymentSave ((newPaymentModel body)\<lparr>pay_paymentId := generatePaymentId penv\<rparr>),
       GatewayAttempt ((newPaymentModel body)\<lparr>pay_paymentId := generatePaymentId penv\<rparr>),
       PaymentSave ((newPaymentModel body)\<lparr>pay_paymentId := generatePaymentId penv, pay_status := PAY_FAILED\<rparr>)]),
     payments @ [(newPaymentModel body)\<lparr>pay_paymentId := generatePaymentId penv, pay_status := PAY_FAILED\<rparr>])"
proof -
  let ?saved = "(newPaymentModel body)\<lparr>pay_paymentId := generatePaymentId penv\<rparr>"
  have v: "validateCreatePayment body" using assms(1-7) by (simp add: validateCreatePayment_def)
  have s: "savePayment penv (newPaymentModel body) payments = Some (?saved, payments @ [?saved])"
    using assms(1-7,9) by (simp add: savePayment_def validatePayment_def newPaymentModel_def Let_def)
  have g: "simulatePaymentProcessing penv ?saved = SimFailure ''Transaction amount exceeds limit''"
    using assms(4,5,8) by (simp add: simulatePaymentProcessing_def newPaymentModel_def Let_def)
  have "map (\<lambda>x. if pay_paymentId x = generatePaymentId penv then e else x) payments = payments" for e
    using assms(9) by (induction payments) auto
  then have u: "updatePayment (?saved\<lparr>pay_status := PAY_FAILED\<rparr>) (payments @ [?saved])
      = Some (payments @ [?saved\<lparr>pay_status := PAY_FAILED\<rparr>])"
    by (simp add: updatePayment_def newPaymentModel_def)
  from v s g u show ?thesis by (simp add: paymentRoute_def processPayment_def Let_def)
qed

text \<open>
  The simulator draws the outcome first and looks at the amount only to word a failure:
  a draw above 0.05 approves the charge whatever the amount, and the limit is the reason
  exactly when the draw fails and the amount is strictly above 100000000.
\<close>

lemma simulatePaymentProcessing_approves:
  "0.05 < penv_outcome penv \<Longrightarrow> \<exists>tid. simulatePaymentProcessing penv payment = SimSuccess tid"
  by (simp add: simulatePaymentProcessing_def)

lemma simulatePaymentProcessing_exceeds_limit:
  "simulatePaymentProcessing penv payment = SimFailure ''Transaction amount exceeds limit''
     \<longleftrightarrow> penv_outcome penv \<le> 0.05 \<and> num_gt (pay_amount payment) 100000000"
  by (simp add: simulatePaymentProcessing_def Let_def)

text \<open>
  What the code does above the ceiling when the draw fails. When a submission passes the
  intake checks and both validations, its order is stored in \<open>pending\<close>, the charge is
  delivered and its payment can be stored, the amount is strictly above 100000000 (and
  within the safe integers the payment route accepts) and the simulator's outcome draw
  is at most 0.05, then the payment service answers 400 with the error
  \<open>Transaction amount exceeds limit\<close> and stores the payment as \<open>failed\<close>, the order is
  stored as \<open>cancelled\<close> and the order service answers with a failure of status 400.
\<close>

lemma submitOrder_above_ceiling_declined:
  assumes "isValid (validateRequiredFields (sub_request sub))"
    and "req_customerId (sub_request sub) = Some cid" "req_productId (sub_request sub) = Some pid"
    and "req_amount (sub_request sub) = Some (Fin a)"
    and "100000000 < a" "a \<le> 9007199254740991"
    and "sr_success (validateCustomer (env_getCustomer (sub_env sub)) cid)"
    and "sr_success (validateProduct (env_getProduct (sub_env sub)) pid 1)"
    and "saveNew (sub_env sub) (newOrderModel (sub_env sub) (sub_request sub) cid pid (Fin a)) orders
           = Some (savedOrder, orders1)"
    and "sub_net sub = Delivered"
    and "penv_outcome (sub_penv sub) \<le> 0.05"
    and "generatePaymentId (sub_penv sub) \<notin> pay_paymentId ` set payments"
  shows "fst (fst (paymentRoute (sub_penv sub) (clientPaymentData cid (ord_orderId savedOrder) pid (Fin a)) payments))
           = respond 400 (createApiResponse False None (Some ''Payment processing failed'')
               (Some ''Transaction amount exceeds limit''))
    \<and> ord_orderStatus savedOrder = PENDING
    \<and> fst (snd (submitOrder sub (orders, payments)))
         = orders @ [savedOrder\<lparr>ord_orderStatus := CANCELLED, ord_updatedAt := env_updatedAt (sub_env sub)\<rparr>]
    \<and> (\<exists>p. snd (snd (submitOrder sub (orders, payments))) = payments @ [p]
            \<and> pay_status p = PAY_FAILED \<and> pay_orderId p = ord_orderId savedOrder \<and> pay_amount p = Fin a)
    \<and> http_status (fst (fst (submitOrder sub (orders, payments)))) = 400
    \<and> \<not> api_success (http_body (fst (fst (submitOrder sub (orders, payments)))))"
proof -
  let ?body = "clientPaymentData cid (ord_orderId savedOrder) pid (Fin a)"
  let ?failed = "(newPaymentModel ?body)\<lparr>pay_paymentId := generatePaymentId (sub_penv sub), pay_status := PAY_FAILED\<rparr>"
  from assms(1-3) have ne: "cid \<noteq> []" "pid \<noteq> []"
    by (auto simp: intake_valid missingString_def)
  from savedOrder_orderId(2) [OF assms(9)] have oid: "ord_orderId savedOrder \<noteq> []" .
  from assms(5) have pos: "\<not> num_le (Fin a) 0" by simp
  have route: "paymentRoute (sub_penv sub) ?body payments =
    ((respond 400 (createApiResponse False None (Some ''Payment processing failed'')
         (Some ''Transaction amount exceeds limit'')),
      [PaymentSave ((newPaymentModel ?body)\<lparr>pay_paymentId := generatePaymentId (sub_penv sub)\<rparr>),
       GatewayAttempt ((newPaymentModel ?body)\<lparr>pay_paymentId := generatePaymentId (sub_penv sub)\<rparr>),
       PaymentSave ?failed]),
     payments @ [?failed])"
    using ne oid assms(5,6,11,12)
    by (intro paymentRoute_exceeds_limit) (simp_all add: clientPaymentData_def)
  have client: "paymentClient (postPayment (sub_net sub) (sub_penv sub)) cid (ord_orderId savedOrder) pid (Fin a) payments
      = (createServiceResponse False None (Some ''Payment processing failed'') (Some 400), payments @ [?failed])"
    using assms(10) route
    by (simp add: paymentClient_def postPayment_def respond_def createApiResponse_def resolves_def body_message_def)
  have "\<not> sr_success (createServiceResponse False None (Some ''Payment processing failed'') (Some 400) :: PaymentResponse ServiceResponse)"
    by (simp add: createServiceResponse_def)
  with createOrder_saga [OF assms(1-4) pos assms(7-9) client]
  have "submitOrder sub (orders, payments) =
      ((respond 400 (createApiResponse False None (Some ''Payment processing failed'') (Some ''Payment processing failed'')),
        [CustomerLookup cid, ProductLookup pid 1, OrderSave savedOrder, PaymentCharge ?body,
         OrderSave (savedOrder\<lparr>ord_orderStatus := CANCELLED, ord_updatedAt := env_updatedAt (sub_env sub)\<rparr>)]),
       (orders @ [savedOrder\<lparr>ord_orderStatus := CANCELLED, ord_updatedAt := env_updatedAt (sub_env sub)\<rparr>],
        payments @ [?failed]))"
    by (simp add: submitOrder_def createServiceResponse_def statusCodeOr_def)
  with route savedOrder_pending [OF assms(9)] show ?thesis
    by (simp add: respond_def createApiResponse_def newPaymentModel_def clientPaymentData_def)
qed

text \<open>
  Claim C6 at an amount above the ceiling whose gateway draw succeeds (as 95% of the
  draws do): the claim has the payment step reject the charge and the order cancelled;
  the charge of 200000000 is approved, its payment stored as \<open>completed\<close>, the order
  confirmed and answered with 201. The same holds at the ceiling itself (100000000). When
  the draw fails, the amount at the ceiling is declined for another reason than the
  limit, and the amount above the ceiling is declined for the limit and the order
  cancelled, but the order service's response carries \<open>Payment processing failed\<close> as
  both message and error, not the payment service's reason.
\<close>

theorem C6_amount_above_ceiling_is_charged:
  "http_status (fst (fst (submitOrder aboveCeiling ([], [])))) = 201
   \<and> api_success (http_body (fst (fst (submitOrder aboveCeiling ([], [])))))
   \<and> map ord_orderStatus (fst (snd (submitOrder aboveCeiling ([], [])))) = [CONFIRMED]
   \<and> map ord_amount (fst (snd (submitOrder aboveCeiling ([], [])))) = [Fin 200000000]
   \<and> map pay_status (snd (snd (submitOrder aboveCeiling ([], [])))) = [PAY_COMPLETED]
   \<and> map pay_amount (snd (snd (submitOrder aboveCeiling ([], [])))) = [Fin 200000000]
   \<and> http_status (fst (fst (submitOrder atCeiling ([], [])))) = 201
   \<and> map ord_orderStatus (fst (snd (submitOrder atCeiling ([], [])))) = [CONFIRMED]
   \<and> map ord_amount (fst (snd (submitOrder atCeiling ([], [])))) = [Fin 100000000]
   \<and> api_error (http_body (fst (fst (paymentRoute (sub_penv atCeilingDeclined)
         (clientPaymentData ''CUST_1'' (generateOrderId sampleEnv) ''PROD_1'' (Fin 100000000)) []))))
       = Some ''Insufficient funds''
   \<and> api_error (http_body (fst (fst (paymentRoute (sub_penv aboveCeilingDeclined)
         (clientPaymentData ''CUST_1'' (generateOrderId sampleEnv) ''PROD_1'' (Fin 200000000)) []))))
       = Some ''Transaction amount exceeds limit''
   \<and> map ord_orderStatus (fst (snd (submitOrder aboveCeilingDeclined ([], [])))) = [CANCELLED]
   \<and> http_status (fst (fst (submitOrder aboveCeilingDeclined ([], [])))) = 400
   \<and> api_message (http_body (fst (fst (submitOrder aboveCeilingDeclined ([], []))))) = Some ''Payment processing failed''
   \<and> api_error (http_body (fst (fst (submitOrder aboveCeilingDeclined ([], []))))) = Some ''Payment processing failed''"
  by (simp add: system_defs order_defs client_defs payment_defs sample_defs Let_def)

section \<open>The intake of the order route\<close>

text \<open>
  Claim C8 at an infinite amount: the request passes the intake checks, the customer and
  the product are looked up, the order is stored with the infinite amount and the payment
  is called (it refuses the amount, so the order is cancelled and the response is 400
  \<open>Payment processing failed\<close>).
\<close>

theorem C8_infinite_amount_passes_intake:
  "take 2 (snd (fst (submitOrder infiniteAmount ([], [])))) = [CustomerLookup ''CUST_1'', ProductLookup ''PROD_1'' 1]
   \<and> length (snd (fst (submitOrder infiniteAmount ([], [])))) = 5
   \<and> map ord_amount (orderSaves (snd (fst (submitOrder infiniteAmount ([], []))))) = [PosInf, PosInf]
   \<and> map ord_orderStatus (orderSaves (snd (fst (submitOrder infiniteAmount ([], []))))) = [PENDING, CANCELLED]
   \<and> map ord_amount (fst (snd (submitOrder infiniteAmount ([], [])))) = [PosInf]
   \<and> http_status (fst (fst (submitOrder infiniteAmount ([], [])))) = 400
   \<and> api_message (http_body (fst (fst (submitOrder infiniteAmount ([], []))))) = Some ''Payment processing failed''"
  by (simp add: system_defs order_defs client_defs payment_defs sample_defs Let_def)

section \<open>Order identifiers\<close>

text \<open>
  The identifier of a created order is the body's \<open>orderId\<close> when it is a non-empty
  string and the generated one otherwise, and the unique index keeps the stored
  identifiers distinct.
\<close>

lemma createOrder_keeps_orderIds_distinct:
  assumes "distinct (map ord_orderId orders)"
  shows "distinct (map ord_orderId (fst (snd (createOrder env post req (orders, ps)))))"
proof (cases rule: createOrder_cases [of env post req orders ps])
  case rejected
  with assms show ?thesis by simp
next
  case (saga cid pid amt savedOrder orders1 pr ps1)
  from saveNew_Some [OF saga(8)] have "ord_orderId savedOrder \<notin> ord_orderId ` set orders" by blast
  with createOrder_saga [OF saga] assms show ?thesis by simp
qed

text \<open>
  Claim C9 at a body that carries an \<open>orderId\<close>: the order is created, confirmed and
  answered with 201 under the identifier the client chose, not a generated one.
\<close>

theorem C9_client_chooses_orderId:
  "map ord_orderId (fst (snd (submitOrder clientChosenId ([], [])))) = [''ORD_CHOSEN_BY_CLIENT'']
   \<and> map or_orderId (case api_data (http_body (fst (fst (submitOrder clientChosenId ([], []))))) of
        None \<Rightarrow> [] | Some r \<Rightarrow> [r]) = [''ORD_CHOSEN_BY_CLIENT'']
   \<and> http_status (fst (fst (submitOrder clientChosenId ([], [])))) = 201
   \<and> map pay_orderId (snd (snd (submitOrder clientChosenId ([], [])))) = [''ORD_CHOSEN_BY_CLIENT'']
   \<and> generateOrderId (sub_env clientChosenId) \<noteq> ''ORD_CHOSEN_BY_CLIENT''"
  by (simp add: system_defs order_defs client_defs payment_defs sample_defs Let_def)

end
